theory Spec2Isabelle
  imports Complex_Main "HOL-Library.AList"
begin

section \<open>Values and objects of the style module\<close>

text \<open>
  The module \<^verbatim>\<open>ol/style/Style\<close> is JavaScript: values are dynamically typed, objects
  are reached through references and have an identity. The embedding keeps both. A value
  is a primitive, a function or a reference into a heap of objects.

  Numbers are IEEE doubles in the source. The only arithmetic of the module is
  \<^verbatim>\<open>3 + 2\<close>, \<^verbatim>\<open>3 * 2\<close> and \<^verbatim>\<open>3 / 2\<close>, which doubles compute exactly, so finite numbers are
  rationals here; \<^verbatim>\<open>Infinity\<close> and \<^verbatim>\<open>NaN\<close> are values of their own.
\<close>

type_synonym addr = nat

datatype number = Fin rat | Infinity | NegInfinity | NaN

text \<open>
  A function value is its code together with the variables it closes over. The four
  function expressions of the module are the constructors \<open>DefaultGeometryFunction\<close>
  (the declaration at the end of the file), \<open>PropertyGeometry\<close> and \<open>FixedGeometry\<close>
  (the two closures of \<^verbatim>\<open>setGeometry\<close>, over its parameter \<^verbatim>\<open>geometry\<close>) and
  \<open>StylesFunction\<close> (the closure of \<^verbatim>\<open>toFunction\<close>, over its variable \<^verbatim>\<open>styles\<close>).
  A function that a caller passes in is \<open>Callback n\<close>: its code is unknown, \<open>n\<close> stands for
  the identity of the function object. The closures that the module creates get no
  identity of their own: two of them with the same code over the same values are one
  value here, and no statement below compares two of them.
\<close>

datatype jsval =
    Undefined
  | Null
  | Bool bool
  | Num number
  | Str string
  | Ref addr
  | Callback nat
  | Closure closure
and closure =
    DefaultGeometryFunction
  | PropertyGeometry string
  | FixedGeometry jsval
  | StylesFunction jsval

text \<open>The fields of a \<^verbatim>\<open>Style\<close> instance, as the constructor declares them: \<open>this_fill\<close> is
  \<^verbatim>\<open>this.fill_\<close>, and so on (a name cannot end with an underscore here).\<close>

record style =
  this_geometry :: jsval
  this_geometryFunction :: jsval
  this_fill :: jsval
  this_image :: jsval
  this_renderer :: jsval
  this_stroke :: jsval
  this_text :: jsval
  this_zIndex :: jsval

text \<open>
  The options object of the constructor (\<^verbatim>\<open>olx.style.StyleOptions\<close>); a key that is
  missing reads as \<open>Undefined\<close>, as a missing property does in JavaScript.
\<close>

record StyleOptions =
  opt_geometry :: jsval
  opt_fill :: jsval
  opt_image :: jsval
  opt_renderer :: jsval
  opt_stroke :: jsval
  opt_text :: jsval
  opt_zIndex :: jsval

definition no_options :: StyleOptions where
  "no_options = \<lparr>opt_geometry = Undefined, opt_fill = Undefined, opt_image = Undefined,
     opt_renderer = Undefined, opt_stroke = Undefined, opt_text = Undefined,
     opt_zIndex = Undefined\<rparr>"

text \<open>
  Modelled from the spec: the geometry-type tags, the constants of
  \<^verbatim>\<open>ol/geom/GeometryType.js\<close>, which is not among the source files. The spec names them
  as distinct tags that key the editing-style mapping.
\<close>

datatype GeometryType =
    POINT
  | LINE_STRING
  | LINEAR_RING
  | POLYGON
  | MULTI_POINT
  | MULTI_LINE_STRING
  | MULTI_POLYGON
  | GEOMETRY_COLLECTION
  | CIRCLE

text \<open>
  Modelled from the spec: the collaborators of the module whose classes are not among the
  source files. A fill has a colour, a stroke a colour and a width, a circular marker a
  fill, a stroke and a radius (the options the module constructs them with); a text style
  has the text it draws and a geometry its coordinates; a feature exposes \<^verbatim>\<open>get(name)\<close> and
  \<^verbatim>\<open>getGeometry()\<close>. \<open>Opaque\<close> is any other object, one without a \<^verbatim>\<open>clone\<close> method.
  \<open>Dict\<close> is the object literal that \<^verbatim>\<open>createEditingStyle\<close> fills, with its keys in
  insertion order.
\<close>

datatype obj =
    Array "jsval list"
  | Dict "(GeometryType \<times> jsval) list"
  | StyleObj style
  | FillObj jsval
  | StrokeObj jsval jsval
  | CircleObj jsval jsval jsval
  | TextObj string
  | GeometryObj "rat list"
  | FeatureObj "(string \<times> jsval) list" jsval
  | Opaque nat

text \<open>
  The heap is the list of all objects allocated so far; an address is an index into it.
  Allocation appends, so a new object never has the address of an older one; nothing is
  ever freed (garbage collection cannot be observed).
\<close>

type_synonym heap = "obj list"

definition lookup :: "heap \<Rightarrow> addr \<Rightarrow> obj option" where
  "lookup h a = (if a < length h then Some (h ! a) else None)"

definition alloc :: "heap \<Rightarrow> obj \<Rightarrow> heap \<times> jsval" where
  "alloc h ob = (h @ [ob], Ref (length h))"

datatype error = TypeError | AssertionError nat

subsection \<open>The operators of the language that the module uses\<close>

fun truthy :: "jsval \<Rightarrow> bool" where
  "truthy Undefined = False"
| "truthy Null = False"
| "truthy (Bool b) = b"
| "truthy (Num n) = (n \<noteq> Fin 0 \<and> n \<noteq> NaN)"
| "truthy (Str s) = (s \<noteq> [])"
| "truthy (Ref a) = True"
| "truthy (Callback n) = True"
| "truthy (Closure c) = True"

fun typeof :: "jsval \<Rightarrow> string" where
  "typeof Undefined = ''undefined''"
| "typeof Null = ''object''"
| "typeof (Bool b) = ''boolean''"
| "typeof (Num n) = ''number''"
| "typeof (Str s) = ''string''"
| "typeof (Ref a) = ''object''"
| "typeof (Callback n) = ''function''"
| "typeof (Closure c) = ''function''"

section \<open>The Style descriptor\<close>

text \<open>
  \<^verbatim>\<open>Style.prototype.setGeometry\<close>. The four branches are tried in the order of the source:
  function, string, falsy, anything else. The last test, \<^verbatim>\<open>geometry !== undefined\<close>, is
  kept; when it fails the resolver is left as it was.
\<close>

definition setGeometry :: "style \<Rightarrow> jsval \<Rightarrow> style" where
  "setGeometry this geometry =
     (let this1 =
        (if typeof geometry = ''function'' then
           this\<lparr>this_geometryFunction := geometry\<rparr>
         else if typeof geometry = ''string'' then
           this\<lparr>this_geometryFunction :=
             Closure (PropertyGeometry (case geometry of Str name \<Rightarrow> name | _ \<Rightarrow> []))\<rparr>
         else if \<not> truthy geometry then
           this\<lparr>this_geometryFunction := Closure DefaultGeometryFunction\<rparr>
         else if geometry \<noteq> Undefined then
           this\<lparr>this_geometryFunction := Closure (FixedGeometry geometry)\<rparr>
         else this)
      in this1\<lparr>this_geometry := geometry\<rparr>)"

text \<open>
  The constructor. \<^verbatim>\<open>opt_options || {}\<close> makes a call without options the call with
  \<open>no_options\<close>. The assignments run in the order of the source.
\<close>

definition Style :: "StyleOptions \<Rightarrow> style" where
  "Style options =
     (let this0 = \<lparr>this_geometry = Null, this_geometryFunction = Closure DefaultGeometryFunction,
                   this_fill = Undefined, this_image = Undefined, this_renderer = Undefined,
                   this_stroke = Undefined, this_text = Undefined, this_zIndex = Undefined\<rparr>;
          this1 = (if opt_geometry options \<noteq> Undefined
                   then setGeometry this0 (opt_geometry options) else this0)
      in this1\<lparr>
           this_fill := (if opt_fill options \<noteq> Undefined then opt_fill options else Null),
           this_image := (if opt_image options \<noteq> Undefined then opt_image options else Null),
           this_renderer := (if opt_renderer options \<noteq> Undefined then opt_renderer options else Null),
           this_stroke := (if opt_stroke options \<noteq> Undefined then opt_stroke options else Null),
           this_text := (if opt_text options \<noteq> Undefined then opt_text options else Null),
           this_zIndex := opt_zIndex options\<rparr>)"

definition getRenderer :: "style \<Rightarrow> jsval" where
  "getRenderer this = this_renderer this"

definition setRenderer :: "style \<Rightarrow> jsval \<Rightarrow> style" where
  "setRenderer this renderer = this\<lparr>this_renderer := renderer\<rparr>"

definition getGeometry :: "style \<Rightarrow> jsval" where
  "getGeometry this = this_geometry this"

definition getGeometryFunction :: "style \<Rightarrow> jsval" where
  "getGeometryFunction this = this_geometryFunction this"

definition getFill :: "style \<Rightarrow> jsval" where
  "getFill this = this_fill this"

definition setFill :: "style \<Rightarrow> jsval \<Rightarrow> style" where
  "setFill this fill = this\<lparr>this_fill := fill\<rparr>"

definition getImage :: "style \<Rightarrow> jsval" where
  "getImage this = this_image this"

definition setImage :: "style \<Rightarrow> jsval \<Rightarrow> style" where
  "setImage this img = this\<lparr>this_image := img\<rparr>"

definition getStroke :: "style \<Rightarrow> jsval" where
  "getStroke this = this_stroke this"

definition setStroke :: "style \<Rightarrow> jsval \<Rightarrow> style" where
  "setStroke this stroke = this\<lparr>this_stroke := stroke\<rparr>"

definition getText :: "style \<Rightarrow> jsval" where
  "getText this = this_text this"

definition setText :: "style \<Rightarrow> jsval \<Rightarrow> style" where
  "setText this t = this\<lparr>this_text := t\<rparr>"

definition getZIndex :: "style \<Rightarrow> jsval" where
  "getZIndex this = this_zIndex this"

definition setZIndex :: "style \<Rightarrow> jsval \<Rightarrow> style" where
  "setZIndex this zIndex = this\<lparr>this_zIndex := zIndex\<rparr>"

subsection \<open>Calling the functions of the module\<close>

text \<open>
  Modelled from the spec: \<^verbatim>\<open>feature.getGeometry()\<close>; the feature class is not among the
  source files. On a value that is not a feature the method call is a \<^verbatim>\<open>TypeError\<close>.
\<close>

definition feature_getGeometry :: "heap \<Rightarrow> jsval \<Rightarrow> error + jsval" where
  "feature_getGeometry h feature =
     (case feature of
        Ref a \<Rightarrow> (case lookup h a of
                    Some (FeatureObj props g) \<Rightarrow> Inr g
                  | _ \<Rightarrow> Inl TypeError)
      | _ \<Rightarrow> Inl TypeError)"

text \<open>
  Modelled from the spec: \<^verbatim>\<open>feature.get(name)\<close>; a property that was never set reads as
  \<open>Undefined\<close>. On a value that is not a feature the method call is a \<^verbatim>\<open>TypeError\<close>.
\<close>

definition feature_get :: "heap \<Rightarrow> jsval \<Rightarrow> string \<Rightarrow> error + jsval" where
  "feature_get h feature name =
     (case feature of
        Ref a \<Rightarrow> (case lookup h a of
                    Some (FeatureObj props g) \<Rightarrow>
                      (case map_of props name of Some v \<Rightarrow> Inr v | None \<Rightarrow> Inr Undefined)
                  | _ \<Rightarrow> Inl TypeError)
      | _ \<Rightarrow> Inl TypeError)"

text \<open>
  A call of one of the module's own functions with a list of arguments, in a heap. A
  parameter without an argument is \<open>Undefined\<close>. None of the four bodies allocates or
  assigns, so a call returns a value (or throws) and leaves the heap as it is.
\<close>

definition arg :: "jsval list \<Rightarrow> nat \<Rightarrow> jsval" where
  "arg args i = (if i < length args then args ! i else Undefined)"

fun call :: "heap \<Rightarrow> closure \<Rightarrow> jsval list \<Rightarrow> error + jsval" where
  "call h DefaultGeometryFunction args = feature_getGeometry h (arg args 0)"
| "call h (PropertyGeometry name) args = feature_get h (arg args 0) name"
| "call h (FixedGeometry geometry) args = Inr geometry"
| "call h (StylesFunction styles) args = Inr styles"

section \<open>Collaborators\<close>

text \<open>
  The classes \<^verbatim>\<open>Fill\<close>, \<^verbatim>\<open>Stroke\<close>, \<^verbatim>\<open>CircleStyle\<close>, \<^verbatim>\<open>Text\<close> and the geometries are
  imported by the module; their files are not among the source files. What the module
  needs of them is their constructors, with the options it passes, and their
  \<^verbatim>\<open>clone()\<close>, of which the spec says: "an independent copy with equivalent visual
  parameters". The parameters have the types of the constructors' options: a colour is a
  string or an array of numbers, a width and a radius are numbers, the fill and the stroke
  of a marker are a fill and a stroke or absent. The copy is a new object; a parameter
  that is itself a mutable object (a colour array, the fill and the stroke of a marker) is
  copied too, so that the copy shares nothing with the original.
\<close>

text \<open>Modelled from the spec: \<^verbatim>\<open>new Fill({color: color})\<close> allocates a fill of that colour.\<close>

definition new_Fill :: "heap \<Rightarrow> jsval \<Rightarrow> heap \<times> jsval" where
  "new_Fill h color = alloc h (FillObj color)"

text \<open>Modelled from the spec: \<^verbatim>\<open>new Stroke({color: color, width: width})\<close> allocates a
  stroke of that colour and width.\<close>

definition new_Stroke :: "heap \<Rightarrow> jsval \<Rightarrow> jsval \<Rightarrow> heap \<times> jsval" where
  "new_Stroke h color width = alloc h (StrokeObj color width)"

text \<open>Modelled from the spec: \<^verbatim>\<open>new CircleStyle({fill: fill, stroke: stroke, radius: radius})\<close>
  allocates a circular marker that holds the fill and the stroke it is given.\<close>

definition new_CircleStyle :: "heap \<Rightarrow> jsval \<Rightarrow> jsval \<Rightarrow> jsval \<Rightarrow> heap \<times> jsval" where
  "new_CircleStyle h fill stroke radius = alloc h (CircleObj fill stroke radius)"

text \<open>Modelled from the spec: the copy of a colour for an independent copy of a fill or a
  stroke; a colour that is an array is copied, any other colour is a value.\<close>

definition copy_color :: "heap \<Rightarrow> jsval \<Rightarrow> heap \<times> jsval" where
  "copy_color h color =
     (case color of
        Ref a \<Rightarrow> (case lookup h a of
                    Some (Array xs) \<Rightarrow> alloc h (Array xs)
                  | _ \<Rightarrow> (h, color))
      | _ \<Rightarrow> (h, color))"

text \<open>Modelled from the spec: \<^verbatim>\<open>clone()\<close> of a fill of the given colour.\<close>

definition Fill_clone :: "heap \<Rightarrow> jsval \<Rightarrow> heap \<times> jsval" where
  "Fill_clone h color = (let (h1, color1) = copy_color h color in new_Fill h1 color1)"

text \<open>Modelled from the spec: \<^verbatim>\<open>clone()\<close> of a stroke of the given colour and width.\<close>

definition Stroke_clone :: "heap \<Rightarrow> jsval \<Rightarrow> jsval \<Rightarrow> heap \<times> jsval" where
  "Stroke_clone h color width =
     (let (h1, color1) = copy_color h color in new_Stroke h1 color1 width)"

text \<open>Modelled from the spec: \<^verbatim>\<open>clone()\<close> of a circular marker; its fill and its stroke
  are cloned first, in this order, when it has them.\<close>

definition CircleStyle_clone :: "heap \<Rightarrow> jsval \<Rightarrow> jsval \<Rightarrow> jsval \<Rightarrow> heap \<times> jsval" where
  "CircleStyle_clone h fill stroke radius =
     (let (h1, fill1) =
            (case fill of
               Ref a \<Rightarrow> (case lookup h a of
                           Some (FillObj color) \<Rightarrow> Fill_clone h color
                         | _ \<Rightarrow> (h, fill))
             | _ \<Rightarrow> (h, fill));
          (h2, stroke1) =
            (case stroke of
               Ref a \<Rightarrow> (case lookup h1 a of
                           Some (StrokeObj color width) \<Rightarrow> Stroke_clone h1 color width
                         | _ \<Rightarrow> (h1, stroke))
             | _ \<Rightarrow> (h1, stroke))
      in new_CircleStyle h2 fill1 stroke1 radius)"

text \<open>Modelled from the spec: \<^verbatim>\<open>clone()\<close> of a text style with the given text; a
  string is a value, so the copy shares nothing with the original.\<close>

definition Text_clone :: "heap \<Rightarrow> string \<Rightarrow> heap \<times> jsval" where
  "Text_clone h t = alloc h (TextObj t)"

text \<open>Modelled from the spec: \<^verbatim>\<open>clone()\<close> of a geometry with the given coordinates.\<close>

definition Geometry_clone :: "heap \<Rightarrow> rat list \<Rightarrow> heap \<times> jsval" where
  "Geometry_clone h coordinates = alloc h (GeometryObj coordinates)"

section \<open>Cloning a descriptor\<close>

text \<open>
  \<^verbatim>\<open>geometry.clone\<close> as a condition: true when the value is an object of a class that
  has a \<^verbatim>\<open>clone\<close> method. These are \<^verbatim>\<open>Style\<close> itself and the collaborators of which the
  spec says so: the four sub-style classes, which must have one, and the geometries that
  have one (\<open>GeometryObj\<close>). Primitives, functions, arrays, object literals, features and
  \<open>Opaque\<close> objects have none.
\<close>

definition has_clone :: "heap \<Rightarrow> jsval \<Rightarrow> bool" where
  "has_clone h v =
     (case v of
        Ref a \<Rightarrow> (case lookup h a of
                    Some (StyleObj s) \<Rightarrow> True
                  | Some (FillObj color) \<Rightarrow> True
                  | Some (StrokeObj color width) \<Rightarrow> True
                  | Some (CircleObj fill stroke radius) \<Rightarrow> True
                  | Some (TextObj t) \<Rightarrow> True
                  | Some (GeometryObj coordinates) \<Rightarrow> True
                  | _ \<Rightarrow> False)
      | _ \<Rightarrow> False)"

text \<open>
  The method call \<^verbatim>\<open>v.clone()\<close>, dispatched on the class of the receiver. The call on a
  value without the method is a \<^verbatim>\<open>TypeError\<close>. The method of a \<^verbatim>\<open>Style\<close> is the
  parameter \<open>style_clone\<close>: it is \<open>clone\<close> itself, defined below.
\<close>

definition invoke_clone ::
    "(heap \<Rightarrow> jsval \<Rightarrow> (error + heap \<times> jsval) option) \<Rightarrow> heap \<Rightarrow> jsval
      \<Rightarrow> (error + heap \<times> jsval) option" where
  "invoke_clone style_clone h v =
     (case v of
        Ref a \<Rightarrow> (case lookup h a of
                    Some (StyleObj s) \<Rightarrow> style_clone h v
                  | Some (FillObj color) \<Rightarrow> Some (Inr (Fill_clone h color))
                  | Some (StrokeObj color width) \<Rightarrow> Some (Inr (Stroke_clone h color width))
                  | Some (CircleObj fill stroke radius) \<Rightarrow>
                      Some (Inr (CircleStyle_clone h fill stroke radius))
                  | Some (TextObj t) \<Rightarrow> Some (Inr (Text_clone h t))
                  | Some (GeometryObj coordinates) \<Rightarrow>
                      Some (Inr (Geometry_clone h coordinates))
                  | _ \<Rightarrow> Some (Inl TypeError))
      | _ \<Rightarrow> Some (Inl TypeError))"

text \<open>
  Sequencing of calls that may throw or not return: the first error or \<open>None\<close> ends the
  computation.
\<close>

definition bind ::
    "(error + heap \<times> jsval) option \<Rightarrow> (heap \<Rightarrow> jsval \<Rightarrow> (error + heap \<times> jsval) option)
      \<Rightarrow> (error + heap \<times> jsval) option" where
  "bind r k = (case r of
                 None \<Rightarrow> None
               | Some (Inl e) \<Rightarrow> Some (Inl e)
               | Some (Inr (h, v)) \<Rightarrow> k h v)"

text \<open>
  \<^verbatim>\<open>new Style(options)\<close>: the constructor allocates nothing but the instance. The object
  literal that carries the options is read by the constructor and then dropped; here and
  for the collaborators it is a value and takes no address.
\<close>

definition new_Style :: "heap \<Rightarrow> StyleOptions \<Rightarrow> heap \<times> jsval" where
  "new_Style h options = alloc h (StyleObj (Style options))"

text \<open>
  \<^verbatim>\<open>Style.prototype.clone\<close>, called on the value \<open>this\<close> in the heap \<open>h\<close>. A descriptor
  whose geometry or sub-style is again a descriptor makes \<^verbatim>\<open>clone\<close> call itself, and on a
  cyclic heap forever; the first argument bounds the depth of these calls, and \<open>None\<close> is
  "no result within that depth". The fields of \<open>this\<close> are read once: the calls in between
  only allocate, so all reads of the source see the same values. The properties of the
  options object are evaluated in the order of the source; \<^verbatim>\<open>renderer\<close> is not among them.
\<close>

primrec clone :: "nat \<Rightarrow> heap \<Rightarrow> jsval \<Rightarrow> (error + heap \<times> jsval) option" where
  "clone 0 h this = None"
| "clone (Suc n) h this =
     (case this of
        Ref a \<Rightarrow>
          (case lookup h a of
             Some (StyleObj s) \<Rightarrow>
               bind (if truthy (getGeometry s) \<and> has_clone h (getGeometry s)
                     then invoke_clone (clone n) h (getGeometry s)
                     else Some (Inr (h, getGeometry s)))
                 (\<lambda>h1 geometry.
               bind (if truthy (getFill s) then invoke_clone (clone n) h1 (getFill s)
                     else Some (Inr (h1, Undefined)))
                 (\<lambda>h2 fill.
               bind (if truthy (getImage s) then invoke_clone (clone n) h2 (getImage s)
                     else Some (Inr (h2, Undefined)))
                 (\<lambda>h3 img.
               bind (if truthy (getStroke s) then invoke_clone (clone n) h3 (getStroke s)
                     else Some (Inr (h3, Undefined)))
                 (\<lambda>h4 stroke.
               bind (if truthy (getText s) then invoke_clone (clone n) h4 (getText s)
                     else Some (Inr (h4, Undefined)))
                 (\<lambda>h5 txt.
               Some (Inr (new_Style h5
                 \<lparr>opt_geometry = geometry, opt_fill = fill, opt_image = img,
                  opt_renderer = Undefined, opt_stroke = stroke, opt_text = txt,
                  opt_zIndex = getZIndex s\<rparr>)))))))
           | _ \<Rightarrow> Some (Inl TypeError))
      | _ \<Rightarrow> Some (Inl TypeError))"

section \<open>The style function adapter\<close>

definition isArray :: "heap \<Rightarrow> jsval \<Rightarrow> bool" where
  "isArray h v = (case v of
                    Ref a \<Rightarrow> (case lookup h a of Some (Array xs) \<Rightarrow> True | _ \<Rightarrow> False)
                  | _ \<Rightarrow> False)"

definition instanceof_Style :: "heap \<Rightarrow> jsval \<Rightarrow> bool" where
  "instanceof_Style h v = (case v of
                    Ref a \<Rightarrow> (case lookup h a of Some (StyleObj s) \<Rightarrow> True | _ \<Rightarrow> False)
                  | _ \<Rightarrow> False)"

text \<open>
  Modelled from the spec: \<^verbatim>\<open>assert\<close> of \<^verbatim>\<open>ol/asserts.js\<close>, which is not among the source
  files: a failed assertion is the contract-violation error carrying its diagnostic code.
\<close>

definition assert :: "bool \<Rightarrow> nat \<Rightarrow> error + unit" where
  "assert assertion errorCode = (if assertion then Inr () else Inl (AssertionError errorCode))"

definition toFunction :: "heap \<Rightarrow> jsval \<Rightarrow> error + heap \<times> jsval" where
  "toFunction h ob =
     (if typeof ob = ''function'' then Inr (h, ob)
      else
        (case (if isArray h ob then Inr (h, ob)
               else (case assert (instanceof_Style h ob) 41 of
                       Inl e \<Rightarrow> Inl e
                     | Inr u \<Rightarrow> Inr (alloc h (Array [ob])))) of
           Inl e \<Rightarrow> Inl e
         | Inr (h1, styles) \<Rightarrow> Inr (h1, Closure (StylesFunction styles))))"

section \<open>The default style\<close>

text \<open>
  The state of the module: the heap and the module-level variable \<^verbatim>\<open>defaultStyles\<close>,
  which only \<^verbatim>\<open>createDefaultStyle\<close> can reach.
\<close>

record state =
  objects :: heap
  defaultStyles :: jsval

definition createDefaultStyle :: "state \<Rightarrow> jsval \<Rightarrow> jsval \<Rightarrow> state \<times> jsval" where
  "createDefaultStyle st feature resolution =
     (let st1 =
        (if \<not> truthy (defaultStyles st) then
           (let (h1, fill) = new_Fill (objects st) (Str ''rgba(255,255,255,0.4)'');
                (h2, stroke) = new_Stroke h1 (Str ''#3399CC'') (Num (Fin 1.25));
                (h3, img) = new_CircleStyle h2 fill stroke (Num (Fin 5));
                (h4, s) = new_Style h3
                            (no_options\<lparr>opt_image := img, opt_fill := fill, opt_stroke := stroke\<rparr>);
                (h5, arr) = alloc h4 (Array [s])
            in st\<lparr>objects := h5, defaultStyles := arr\<rparr>)
         else st)
      in (st1, defaultStyles st1))"

section \<open>The editing styles\<close>

text \<open>Reading and writing a property of the object literal, \<^verbatim>\<open>styles[key]\<close>.\<close>

definition get_prop :: "heap \<Rightarrow> jsval \<Rightarrow> GeometryType \<Rightarrow> jsval" where
  "get_prop h ob key =
     (case ob of
        Ref a \<Rightarrow> (case lookup h a of
                    Some (Dict d) \<Rightarrow> (case map_of d key of Some v \<Rightarrow> v | None \<Rightarrow> Undefined)
                  | _ \<Rightarrow> Undefined)
      | _ \<Rightarrow> Undefined)"

definition set_prop :: "heap \<Rightarrow> jsval \<Rightarrow> GeometryType \<Rightarrow> jsval \<Rightarrow> heap" where
  "set_prop h ob key v =
     (case ob of
        Ref a \<Rightarrow> (case lookup h a of
                    Some (Dict d) \<Rightarrow> h[a := Dict (AList.update key v d)]
                  | _ \<Rightarrow> h)
      | _ \<Rightarrow> h)"

text \<open>
  \<^verbatim>\<open>Array.prototype.concat\<close>: a new array of the receiver's elements followed by those of
  the arguments, an argument that is an array contributing its elements and any other
  argument itself. On a receiver that is not an array the method does not exist.
\<close>

definition spread :: "heap \<Rightarrow> jsval \<Rightarrow> jsval list" where
  "spread h v = (case v of
                   Ref a \<Rightarrow> (case lookup h a of Some (Array xs) \<Rightarrow> xs | _ \<Rightarrow> [v])
                 | _ \<Rightarrow> [v])"

definition array_concat :: "heap \<Rightarrow> jsval \<Rightarrow> jsval list \<Rightarrow> error + heap \<times> jsval" where
  "array_concat h receiver args =
     (if isArray h receiver
      then Inr (alloc h (Array (spread h receiver @ concat (map (spread h) args))))
      else Inl TypeError)"

definition createEditingStyle :: "heap \<Rightarrow> error + heap \<times> jsval" where
  "createEditingStyle h0 =
     (let (h, styles) = alloc h0 (Dict []);
          (h, white) = alloc h (Array [Num (Fin 255), Num (Fin 255), Num (Fin 255), Num (Fin 1)]);
          (h, blue) = alloc h (Array [Num (Fin 0), Num (Fin 153), Num (Fin 255), Num (Fin 1)]);
          width = (3 :: rat);
          (h, color) = alloc h (Array [Num (Fin 255), Num (Fin 255), Num (Fin 255), Num (Fin 0.5)]);
          (h, fill) = new_Fill h color;
          (h, s) = new_Style h (no_options\<lparr>opt_fill := fill\<rparr>);
          (h, arr) = alloc h (Array [s]);
          h = set_prop h styles POLYGON arr;
          h = set_prop h styles MULTI_POLYGON (get_prop h styles POLYGON);
          (h, stroke1) = new_Stroke h white (Num (Fin (width + 2)));
          (h, s1) = new_Style h (no_options\<lparr>opt_stroke := stroke1\<rparr>);
          (h, stroke2) = new_Stroke h blue (Num (Fin width));
          (h, s2) = new_Style h (no_options\<lparr>opt_stroke := stroke2\<rparr>);
          (h, arr) = alloc h (Array [s1, s2]);
          h = set_prop h styles LINE_STRING arr;
          h = set_prop h styles MULTI_LINE_STRING (get_prop h styles LINE_STRING)
      in case array_concat h (get_prop h styles POLYGON) [get_prop h styles LINE_STRING] of
           Inl e \<Rightarrow> Inl e
         | Inr (h, arr) \<Rightarrow>
     (let h = set_prop h styles CIRCLE arr;
          (h, fill) = new_Fill h blue;
          (h, stroke) = new_Stroke h white (Num (Fin (width / 2)));
          (h, img) = new_CircleStyle h fill stroke (Num (Fin (width * 2)));
          (h, s) = new_Style h (no_options\<lparr>opt_image := img, opt_zIndex := Num Infinity\<rparr>);
          (h, arr) = alloc h (Array [s]);
          h = set_prop h styles POINT arr;
          h = set_prop h styles MULTI_POINT (get_prop h styles POINT)
      in case array_concat h (get_prop h styles POLYGON)
                [get_prop h styles LINE_STRING, get_prop h styles POINT] of
           Inl e \<Rightarrow> Inl e
         | Inr (h, arr) \<Rightarrow>
             (let h = set_prop h styles GEOMETRY_COLLECTION arr in Inr (h, styles))))"

section \<open>Notions used to state the properties\<close>

text \<open>
  A call of one of the setters of a descriptor, and its effect; a list of them is a
  sequence of setter calls on one descriptor.
\<close>

datatype setter =
    SetGeometry jsval
  | SetFill jsval
  | SetImage jsval
  | SetStroke jsval
  | SetText jsval
  | SetRenderer jsval
  | SetZIndex jsval

fun apply_setter :: "style \<Rightarrow> setter \<Rightarrow> style" where
  "apply_setter this (SetGeometry v) = setGeometry this v"
| "apply_setter this (SetFill v) = setFill this v"
| "apply_setter this (SetImage v) = setImage this v"
| "apply_setter this (SetStroke v) = setStroke this v"
| "apply_setter this (SetText v) = setText this v"
| "apply_setter this (SetRenderer v) = setRenderer this v"
| "apply_setter this (SetZIndex v) = setZIndex this v"

fun is_SetGeometry :: "setter \<Rightarrow> bool" where
  "is_SetGeometry (SetGeometry v) = True"
| "is_SetGeometry c = False"

text \<open>
  The class of an object, and the two shapes of a field: absent, or a collaborator (an
  object of one of the classes whose \<^verbatim>\<open>clone\<close> is modelled from the spec).
\<close>

fun class_of :: "obj \<Rightarrow> string" where
  "class_of (Array xs) = ''Array''"
| "class_of (Dict d) = ''Object''"
| "class_of (StyleObj s) = ''Style''"
| "class_of (FillObj color) = ''Fill''"
| "class_of (StrokeObj color width) = ''Stroke''"
| "class_of (CircleObj fill stroke radius) = ''CircleStyle''"
| "class_of (TextObj t) = ''Text''"
| "class_of (GeometryObj coordinates) = ''Geometry''"
| "class_of (FeatureObj props g) = ''Feature''"
| "class_of (Opaque n) = ''Opaque''"

definition absent :: "jsval \<Rightarrow> bool" where
  "absent v = (v = Undefined \<or> v = Null)"

definition collaborator :: "heap \<Rightarrow> jsval \<Rightarrow> bool" where
  "collaborator h v =
     (case v of
        Ref a \<Rightarrow> (case lookup h a of
                    Some ob \<Rightarrow> class_of ob \<in> {''Fill'', ''Stroke'', ''CircleStyle'', ''Text'', ''Geometry''}
                  | None \<Rightarrow> False)
      | _ \<Rightarrow> False)"

text \<open>
  \<open>fresh_copy h h' v v'\<close>: \<open>v\<close> is an object of the heap \<open>h\<close>, and \<open>v'\<close> is an object of
  the same class that the later heap \<open>h'\<close> has and \<open>h\<close> did not have. Being new, \<open>v'\<close> is
  neither \<open>v\<close> nor any other object of \<open>h\<close>.
\<close>

definition fresh_copy :: "heap \<Rightarrow> heap \<Rightarrow> jsval \<Rightarrow> jsval \<Rightarrow> bool" where
  "fresh_copy h h' v v' =
     (case (v, v') of
        (Ref a, Ref a') \<Rightarrow>
           a < length h \<and> length h \<le> a' \<and> a' < length h' \<and>
           map_option class_of (lookup h' a') = map_option class_of (lookup h a)
      | _ \<Rightarrow> False)"

text \<open>
  A heap with a geometry, the sub-styles, a descriptor that uses them all and has a custom
  renderer, and a feature.
\<close>

definition example_style :: style where
  "example_style = setRenderer
     (Style \<lparr>opt_geometry = Ref 0, opt_fill = Ref 2, opt_image = Ref 4,
             opt_renderer = Undefined, opt_stroke = Ref 3, opt_text = Ref 5,
             opt_zIndex = Num (Fin 7)\<rparr>) (Callback 1)"

definition example_heap :: heap where
  "example_heap =
     [GeometryObj [1, 2],
      Array [Num (Fin 255), Num (Fin 255), Num (Fin 255), Num (Fin 0.5)],
      FillObj (Ref 1),
      StrokeObj (Str ''#3399CC'') (Num (Fin 1.25)),
      CircleObj (Ref 2) (Ref 3) (Num (Fin 5)),
      TextObj ''label'',
      StyleObj example_style,
      FeatureObj [('''', Num (Fin 7)), (''outline'', Ref 0)] (Ref 8),
      GeometryObj [3, 4],
      Array [Ref 6]]"

text \<open>
  The content of a value: what a reader finds when following its references to a given
  depth, with the addresses left out. Two values with the same content are equal in
  content whether or not they are the same object. \<open>Cut\<close> marks a reference that was
  not followed, because the depth ran out or nothing is allocated there.
\<close>

datatype content =
    Atom jsval
  | Node string "content list"
  | Prop GeometryType content
  | Cut

primrec snapshot :: "nat \<Rightarrow> heap \<Rightarrow> jsval \<Rightarrow> content" where
  "snapshot 0 h v = Cut"
| "snapshot (Suc n) h v =
     (case v of
        Ref a \<Rightarrow>
          (case lookup h a of
             None \<Rightarrow> Cut
           | Some (Array xs) \<Rightarrow> Node ''Array'' (map (snapshot n h) xs)
           | Some (Dict d) \<Rightarrow> Node ''Object'' (map (\<lambda>(key, x). Prop key (snapshot n h x)) d)
           | Some (StyleObj s) \<Rightarrow>
               Node ''Style''
                 [snapshot n h (this_geometry s), snapshot n h (this_geometryFunction s),
                  snapshot n h (this_fill s), snapshot n h (this_image s),
                  snapshot n h (this_renderer s), snapshot n h (this_stroke s),
                  snapshot n h (this_text s), snapshot n h (this_zIndex s)]
           | Some (FillObj color) \<Rightarrow> Node ''Fill'' [snapshot n h color]
           | Some (StrokeObj color width) \<Rightarrow>
               Node ''Stroke'' [snapshot n h color, snapshot n h width]
           | Some (CircleObj fill stroke radius) \<Rightarrow>
               Node ''CircleStyle'' [snapshot n h fill, snapshot n h stroke, snapshot n h radius]
           | Some (TextObj t) \<Rightarrow> Node ''Text'' [Atom (Str t)]
           | Some (GeometryObj coordinates) \<Rightarrow>
               Node ''Geometry'' (map (\<lambda>c. Atom (Num (Fin c))) coordinates)
           | Some (FeatureObj props g) \<Rightarrow>
               Node ''Feature''
                 (snapshot n h g # map (\<lambda>(name, x). Node name [snapshot n h x]) props)
           | Some (Opaque k) \<Rightarrow> Node ''Opaque'' [])
      | Closure (FixedGeometry g) \<Rightarrow> Node ''FixedGeometry'' [snapshot n h g]
      | Closure (StylesFunction styles) \<Rightarrow> Node ''StylesFunction'' [snapshot n h styles]
      | _ \<Rightarrow> Atom v)"

fun complete :: "content \<Rightarrow> bool" where
  "complete (Atom v) = True"
| "complete (Node name cs) = list_all complete cs"
| "complete (Prop key c) = complete c"
| "complete Cut = False"

text \<open>
  \<open>same_content h v h' v'\<close>: at every depth at which the content of \<open>v\<close> in the heap \<open>h\<close>
  has no reference left unfollowed, \<open>v'\<close> in the heap \<open>h'\<close> has that same content.
\<close>

definition same_content :: "heap \<Rightarrow> jsval \<Rightarrow> heap \<Rightarrow> jsval \<Rightarrow> bool" where
  "same_content h v h' v' =
     (\<forall>n. complete (snapshot n h v) \<longrightarrow> snapshot n h' v' = snapshot n h v)"



text \<open>
  The addresses that a value mentions (a function mentions those of the values it closes
  over), the values that an object holds, and the objects that can be reached from a
  value by following references in a heap.
\<close>

primrec refs :: "jsval \<Rightarrow> addr list" and refs_closure :: "closure \<Rightarrow> addr list" where
  "refs Undefined = []"
| "refs Null = []"
| "refs (Bool b) = []"
| "refs (Num n) = []"
| "refs (Str s) = []"
| "refs (Ref a) = [a]"
| "refs (Callback n) = []"
| "refs (Closure c) = refs_closure c"
| "refs_closure DefaultGeometryFunction = []"
| "refs_closure (PropertyGeometry name) = []"
| "refs_closure (FixedGeometry geometry) = refs geometry"
| "refs_closure (StylesFunction styles) = refs styles"












text \<open>The values of the properties of an object literal, in insertion order.\<close>

definition dict_values :: "heap \<Rightarrow> jsval \<Rightarrow> jsval list" where
  "dict_values h ob =
     (case ob of
        Ref a \<Rightarrow> (case lookup h a of Some (Dict d) \<Rightarrow> map snd d | _ \<Rightarrow> [])
      | _ \<Rightarrow> [])"

text \<open>
  The objects that one call of \<^verbatim>\<open>createEditingStyle\<close> allocates, in the order of
  allocation, when the first of them gets the address \<open>b\<close>; \<open>off b k\<close> is the address of
  the \<open>k\<close>-th. That the function allocates exactly these is \<open>createEditingStyle_eq\<close> below.
\<close>

definition off :: "addr \<Rightarrow> nat \<Rightarrow> addr" where
  "off b k = b + k"

definition editing_objects :: "addr \<Rightarrow> obj list" where
  "editing_objects b =
    [Dict [(POLYGON, Ref (off b 6)), (MULTI_POLYGON, Ref (off b 6)),
           (LINE_STRING, Ref (off b 11)), (MULTI_LINE_STRING, Ref (off b 11)),
           (CIRCLE, Ref (off b 12)), (POINT, Ref (off b 17)), (MULTI_POINT, Ref (off b 17)),
           (GEOMETRY_COLLECTION, Ref (off b 18))],
     Array [Num (Fin 255), Num (Fin 255), Num (Fin 255), Num (Fin 1)],
     Array [Num (Fin 0), Num (Fin 153), Num (Fin 255), Num (Fin 1)],
     Array [Num (Fin 255), Num (Fin 255), Num (Fin 255), Num (Fin 0.5)],
     FillObj (Ref (off b 3)),
     StyleObj (Style (no_options\<lparr>opt_fill := Ref (off b 4)\<rparr>)),
     Array [Ref (off b 5)],
     StrokeObj (Ref (off b 1)) (Num (Fin 5)),
     StyleObj (Style (no_options\<lparr>opt_stroke := Ref (off b 7)\<rparr>)),
     StrokeObj (Ref (off b 2)) (Num (Fin 3)),
     StyleObj (Style (no_options\<lparr>opt_stroke := Ref (off b 9)\<rparr>)),
     Array [Ref (off b 8), Ref (off b 10)],
     Array [Ref (off b 5), Ref (off b 8), Ref (off b 10)],
     FillObj (Ref (off b 2)),
     StrokeObj (Ref (off b 1)) (Num (Fin 1.5)),
     CircleObj (Ref (off b 13)) (Ref (off b 14)) (Num (Fin 6)),
     StyleObj (Style (no_options\<lparr>opt_image := Ref (off b 15), opt_zIndex := Num Infinity\<rparr>)),
     Array [Ref (off b 16)],
     Array [Ref (off b 5), Ref (off b 8), Ref (off b 10), Ref (off b 16)]]"

text \<open>The content of a colour array and of a descriptor, to state contents briefly.\<close>

definition rgba :: "rat \<Rightarrow> rat \<Rightarrow> rat \<Rightarrow> rat \<Rightarrow> content" where
  "rgba r g b a =
     Node ''Array'' [Atom (Num (Fin r)), Atom (Num (Fin g)), Atom (Num (Fin b)), Atom (Num (Fin a))]"

definition style_content :: "content \<Rightarrow> content \<Rightarrow> content \<Rightarrow> content \<Rightarrow> content" where
  "style_content fill img stroke zIndex =
     Node ''Style'' [Atom Null, Atom (Closure DefaultGeometryFunction), fill, img,
                     Atom Null, stroke, Atom Null, zIndex]"

section \<open>Properties of the geometry resolver\<close>

lemma setGeometry_function:
  "typeof (this_geometryFunction (setGeometry this x)) = ''function''"
  by (cases x) (simp_all add: setGeometry_def)

text \<open>
  C4. After \<^verbatim>\<open>setGeometry(x)\<close> the getter returns exactly \<open>x\<close>, whatever \<open>x\<close> is and
  whatever the descriptor held before, and the same call installs the resolver that
  belongs to that \<open>x\<close>: for a function, \<open>x\<close> itself; for a property name, a function
  that reads that property of the feature it is given; for an absent value (and any
  other falsy value that is not a string), a function that returns the geometry of the
  feature it is given; for any other value, a function that returns \<open>x\<close>. A resolver is
  described by what its calls return, in every heap and for all arguments. The call
  changes no other field of the descriptor.
\<close>

theorem setGeometry_getGeometry:
  "getGeometry (setGeometry this x) = x \<and>
   (typeof x = ''function'' \<longrightarrow> getGeometryFunction (setGeometry this x) = x) \<and>
   (typeof x = ''string'' \<longrightarrow>
      (\<exists>c name. x = Str name \<and> getGeometryFunction (setGeometry this x) = Closure c \<and>
         (\<forall>h args. call h c args = feature_get h (arg args 0) name))) \<and>
   (\<not> truthy x \<and> typeof x \<noteq> ''string'' \<longrightarrow>
      (\<exists>c. getGeometryFunction (setGeometry this x) = Closure c \<and>
         (\<forall>h args. call h c args = feature_getGeometry h (arg args 0)))) \<and>
   (truthy x \<and> typeof x \<noteq> ''string'' \<and> typeof x \<noteq> ''function'' \<longrightarrow>
      (\<exists>c. getGeometryFunction (setGeometry this x) = Closure c \<and>
         (\<forall>h args. call h c args = Inr x))) \<and>
   getFill (setGeometry this x) = getFill this \<and>
   getImage (setGeometry this x) = getImage this \<and>
   getStroke (setGeometry this x) = getStroke this \<and>
   getText (setGeometry this x) = getText this \<and>
   getRenderer (setGeometry this x) = getRenderer this \<and>
   getZIndex (setGeometry this x) = getZIndex this"
  by (cases x)
    (simp_all add: setGeometry_def getGeometry_def getGeometryFunction_def getFill_def
      getImage_def getStroke_def getText_def getRenderer_def getZIndex_def)

text \<open>
  The four shapes of \<open>x\<close>, set on the descriptor of the example, which had the geometry
  \<open>Ref 0\<close> and the resolver that returns it; the resolvers are called on the feature of
  the example, whose own geometry is \<open>Ref 8\<close> and whose property \<^verbatim>\<open>outline\<close> is \<open>Ref 0\<close>.
\<close>

theorem setGeometry_getGeometry_witness:
  "typeof (Callback 2) = ''function'' \<and>
   getGeometry (setGeometry example_style (Callback 2)) = Callback 2 \<and>
   getGeometryFunction (setGeometry example_style (Callback 2)) = Callback 2 \<and>
   typeof (Str ''outline'') = ''string'' \<and>
   getGeometry (setGeometry example_style (Str ''outline'')) = Str ''outline'' \<and>
   (\<exists>c. getGeometryFunction (setGeometry example_style (Str ''outline'')) = Closure c \<and>
      call example_heap c [Ref 7] = Inr (Ref 0)) \<and>
   \<not> truthy Undefined \<and> typeof Undefined \<noteq> ''string'' \<and>
   getGeometry (setGeometry example_style Undefined) = Undefined \<and>
   (\<exists>c. getGeometryFunction (setGeometry example_style Undefined) = Closure c \<and>
      call example_heap c [Ref 7] = Inr (Ref 8)) \<and>
   truthy (Ref 8) \<and> typeof (Ref 8) \<noteq> ''string'' \<and> typeof (Ref 8) \<noteq> ''function'' \<and>
   getGeometry (setGeometry example_style (Ref 8)) = Ref 8 \<and>
   (\<exists>c. getGeometryFunction (setGeometry example_style (Ref 8)) = Closure c \<and>
      call example_heap c [Ref 7] = Inr (Ref 8)) \<and>
   getFill (setGeometry example_style (Ref 8)) = Ref 2"
proof -
  have feature: "feature_get example_heap (arg [Ref 7] 0) ''outline'' = Inr (Ref 0)"
    "feature_getGeometry example_heap (arg [Ref 7] 0) = Inr (Ref 8)"
    by (simp_all add: feature_get_def feature_getGeometry_def arg_def example_heap_def
        lookup_def)
  have fill: "getFill example_style = Ref 2"
    by (simp add: example_style_def Style_def setGeometry_def setRenderer_def getFill_def)
  show ?thesis
    using setGeometry_getGeometry [of example_style "Callback 2"]
      setGeometry_getGeometry [of example_style "Str ''outline''"]
      setGeometry_getGeometry [of example_style Undefined]
      setGeometry_getGeometry [of example_style "Ref 8"]
      feature fill
    by simp metis
qed

text \<open>
  C1, as amended. \<^verbatim>\<open>setGeometry\<close> derives the resolver at set-time from the shape of its
  argument: a function is installed as it is; a string, the empty string too, installs a
  resolver that returns \<^verbatim>\<open>feature.get\<close> of that string; a falsy value that is not a
  string installs the default resolver, which returns \<^verbatim>\<open>feature.getGeometry()\<close>; any
  other value installs a resolver that ignores its arguments and returns that value.
\<close>

theorem setGeometry_resolver:
  "(typeof x = ''function'' \<longrightarrow> getGeometryFunction (setGeometry this x) = x) \<and>
   (getGeometryFunction (setGeometry this (Str name)) = Closure (PropertyGeometry name) \<and>
      call h (PropertyGeometry name) (feature # rest) = feature_get h feature name) \<and>
   (\<not> truthy x \<and> typeof x \<noteq> ''string'' \<longrightarrow>
      getGeometryFunction (setGeometry this x) = Closure DefaultGeometryFunction \<and>
      call h DefaultGeometryFunction (feature # rest) = feature_getGeometry h feature) \<and>
   (truthy x \<and> typeof x \<noteq> ''string'' \<and> typeof x \<noteq> ''function'' \<longrightarrow>
      getGeometryFunction (setGeometry this x) = Closure (FixedGeometry x) \<and>
      call h (FixedGeometry x) args = Inr x)"
  by (cases x) (simp_all add: setGeometry_def getGeometryFunction_def arg_def)

theorem setGeometry_resolver_witness:
  "typeof (Callback 1) = ''function'' \<and>
   getGeometryFunction (setGeometry (Style no_options) (Callback 1)) = Callback 1 \<and>
   getGeometryFunction (setGeometry (Style no_options) (Str ''outline''))
     = Closure (PropertyGeometry ''outline'') \<and>
   call example_heap (PropertyGeometry ''outline'') [Ref 7]
     = feature_get example_heap (Ref 7) ''outline'' \<and>
   \<not> truthy Null \<and> typeof Null \<noteq> ''string'' \<and>
   getGeometryFunction (setGeometry (Style no_options) Null) = Closure DefaultGeometryFunction \<and>
   call example_heap DefaultGeometryFunction [Ref 7] = feature_getGeometry example_heap (Ref 7) \<and>
   truthy (Ref 0) \<and> typeof (Ref 0) \<noteq> ''string'' \<and> typeof (Ref 0) \<noteq> ''function'' \<and>
   getGeometryFunction (setGeometry (Style no_options) (Ref 0)) = Closure (FixedGeometry (Ref 0)) \<and>
   call example_heap (FixedGeometry (Ref 0)) [Ref 7] = Inr (Ref 0)"
  using setGeometry_resolver [where x = "Callback 1" and this = "Style no_options"
      and name = "''outline''" and h = example_heap and feature = "Ref 7" and rest = "[]"]
    setGeometry_resolver [where x = Null and this = "Style no_options"
      and h = example_heap and feature = "Ref 7" and rest = "[]"]
    setGeometry_resolver [where x = "Ref 0" and this = "Style no_options"
      and h = example_heap and args = "[Ref 7]"]
  by simp

text \<open>
  C1 as stated fails at the empty string: it is falsy, yet \<^verbatim>\<open>setGeometry('')\<close> installs the
  property resolver, which on the feature of the example returns the property of that name
  and not the feature's own geometry.
\<close>

theorem setGeometry_empty_string_counterexample:
  "\<not> truthy (Str '''') \<and>
   getGeometryFunction (setGeometry (Style no_options) (Str ''''))
     = Closure (PropertyGeometry '''') \<and>
   call example_heap (PropertyGeometry '''') [Ref 7] = Inr (Num (Fin 7)) \<and>
   call example_heap DefaultGeometryFunction [Ref 7] = Inr (Ref 8)"
  by (simp add: setGeometry_def getGeometryFunction_def example_heap_def arg_def
      feature_get_def feature_getGeometry_def lookup_def)

lemma foldl_setter_function:
  "typeof (this_geometryFunction s) = ''function'' \<Longrightarrow>
   typeof (this_geometryFunction (foldl apply_setter s calls)) = ''function''"
proof (induction calls arbitrary: s)
  case Nil
  then show ?case by simp
next
  case (Cons c calls)
  have "typeof (this_geometryFunction (apply_setter s c)) = ''function''"
    using Cons.prems
    by (cases c) (simp_all add: setGeometry_function setFill_def setImage_def setStroke_def
        setText_def setRenderer_def setZIndex_def)
  then show ?case using Cons.IH by simp
qed

lemma Style_function: "typeof (this_geometryFunction (Style options)) = ''function''"
  by (simp add: Style_def Let_def setGeometry_function)

lemma foldl_setter_keeps:
  "\<forall>c\<in>set calls. \<not> is_SetGeometry c \<Longrightarrow>
   this_geometryFunction (foldl apply_setter s calls) = this_geometryFunction s"
proof (induction calls arbitrary: s)
  case Nil
  then show ?case by simp
next
  case (Cons c calls)
  have "this_geometryFunction (apply_setter s c) = this_geometryFunction s"
    using Cons.prems
    by (cases c) (simp_all add: setFill_def setImage_def setStroke_def
        setText_def setRenderer_def setZIndex_def)
  then show ?case using Cons by simp
qed

text \<open>
  C9, as amended. A descriptor always has a resolver that is a function: after
  construction with any options and after any sequence of setter calls. When no geometry
  is configured, and after \<^verbatim>\<open>setGeometry\<close> with a falsy value that is not a string, the
  resolver is the default one.
\<close>

theorem resolver_always_function:
  "typeof (getGeometryFunction (foldl apply_setter (Style options) calls)) = ''function'' \<and>
   (opt_geometry options = Undefined \<and> (\<forall>c\<in>set calls. \<not> is_SetGeometry c) \<longrightarrow>
      getGeometryFunction (foldl apply_setter (Style options) calls)
        = Closure DefaultGeometryFunction) \<and>
   (\<not> truthy x \<and> typeof x \<noteq> ''string'' \<longrightarrow>
      getGeometryFunction (setGeometry (foldl apply_setter (Style options) calls) x)
        = Closure DefaultGeometryFunction)"
proof (intro conjI impI)
  show "typeof (getGeometryFunction (foldl apply_setter (Style options) calls)) = ''function''"
    unfolding getGeometryFunction_def by (rule foldl_setter_function [OF Style_function])
next
  assume a: "opt_geometry options = Undefined \<and> (\<forall>c\<in>set calls. \<not> is_SetGeometry c)"
  then have "this_geometryFunction (foldl apply_setter (Style options) calls)
      = this_geometryFunction (Style options)"
    by (simp add: foldl_setter_keeps)
  also have "\<dots> = Closure DefaultGeometryFunction"
    using a by (simp add: Style_def)
  finally show "getGeometryFunction (foldl apply_setter (Style options) calls)
      = Closure DefaultGeometryFunction"
    by (simp add: getGeometryFunction_def)
next
  assume "\<not> truthy x \<and> typeof x \<noteq> ''string''"
  then show "getGeometryFunction (setGeometry (foldl apply_setter (Style options) calls) x)
      = Closure DefaultGeometryFunction"
    by (cases x) (simp_all add: setGeometry_def getGeometryFunction_def)
qed

theorem resolver_always_function_witness:
  "typeof (getGeometryFunction (foldl apply_setter (Style (no_options\<lparr>opt_fill := Ref 2\<rparr>))
      [SetFill Null, SetRenderer (Callback 1)])) = ''function'' \<and>
   opt_geometry (no_options\<lparr>opt_fill := Ref 2\<rparr>) = Undefined \<and>
   \<not> is_SetGeometry (SetFill Null) \<and> \<not> is_SetGeometry (SetRenderer (Callback 1)) \<and>
   getGeometryFunction (foldl apply_setter (Style (no_options\<lparr>opt_fill := Ref 2\<rparr>))
      [SetFill Null, SetRenderer (Callback 1)]) = Closure DefaultGeometryFunction \<and>
   \<not> truthy (Num (Fin 0)) \<and> typeof (Num (Fin 0)) \<noteq> ''string'' \<and>
   getGeometryFunction (setGeometry (foldl apply_setter (Style (no_options\<lparr>opt_fill := Ref 2\<rparr>))
      [SetFill Null, SetRenderer (Callback 1)]) (Num (Fin 0))) = Closure DefaultGeometryFunction"
  using resolver_always_function [of "no_options\<lparr>opt_fill := Ref 2\<rparr>"
      "[SetFill Null, SetRenderer (Callback 1)]" "Num (Fin 0)"]
  by (simp add: no_options_def)

text \<open>
  C9 as stated fails at the empty string: it is a falsy value, and after
  \<^verbatim>\<open>setGeometry('')\<close> the resolver is not the default one.
\<close>

theorem default_resolver_counterexample:
  "\<not> truthy (Str '''') \<and>
   getGeometryFunction (foldl apply_setter (Style no_options) [SetGeometry (Str '''')])
     \<noteq> Closure DefaultGeometryFunction"
  by (simp add: setGeometry_def getGeometryFunction_def)

section \<open>Properties of clone\<close>

lemma lookup_append_old: "a < length h \<Longrightarrow> lookup (h @ xs) a = lookup h a"
  by (simp add: lookup_def nth_append)

lemma lookup_last: "lookup (h @ [ob]) (length h) = Some ob"
  by (simp add: lookup_def)

lemma lookup_Some_less: "lookup h a = Some ob \<Longrightarrow> a < length h"
  by (simp add: lookup_def split: if_splits)

lemma copy_color_shape: "\<exists>xs c'. copy_color h c = (h @ xs, c')"
  by (auto simp: copy_color_def alloc_def split: jsval.splits option.splits obj.splits)

lemma Fill_clone_shape:
  "\<exists>xs c'. Fill_clone h c = (h @ xs @ [FillObj c'], Ref (length h + length xs))"
proof -
  obtain xs c' where "copy_color h c = (h @ xs, c')"
    using copy_color_shape by blast
  then show ?thesis
    by (simp add: Fill_clone_def new_Fill_def alloc_def)
qed

lemma Stroke_clone_shape:
  "\<exists>xs c'. Stroke_clone h c w = (h @ xs @ [StrokeObj c' w], Ref (length h + length xs))"
proof -
  obtain xs c' where "copy_color h c = (h @ xs, c')"
    using copy_color_shape by blast
  then show ?thesis
    by (simp add: Stroke_clone_def new_Stroke_def alloc_def)
qed

lemma CircleStyle_clone_shape:
  "\<exists>xs f' s'. CircleStyle_clone h f s r
      = (h @ xs @ [CircleObj f' s' r], Ref (length h + length xs))"
proof -
  let ?step1 = "(case f of
               Ref a \<Rightarrow> (case lookup h a of
                           Some (FillObj color) \<Rightarrow> Fill_clone h color
                         | _ \<Rightarrow> (h, f))
             | _ \<Rightarrow> (h, f))"
  have "\<exists>xs f'. ?step1 = (h @ xs, f')"
  proof (cases "\<exists>a color. f = Ref a \<and> lookup h a = Some (FillObj color)")
    case True
    then obtain a color where f: "f = Ref a" "lookup h a = Some (FillObj color)" by blast
    obtain xs c' where "Fill_clone h color = (h @ xs @ [FillObj c'], Ref (length h + length xs))"
      using Fill_clone_shape by blast
    then have "?step1 = (h @ (xs @ [FillObj c']), Ref (length h + length xs))"
      using f by simp
    then show ?thesis by blast
  next
    case False
    then have "?step1 = (h @ [], f)"
      by (auto split: jsval.splits option.splits obj.splits)
    then show ?thesis by blast
  qed
  then obtain xs f' where s1: "?step1 = (h @ xs, f')" by blast
  let ?h1 = "h @ xs"
  let ?step2 = "(case s of
               Ref a \<Rightarrow> (case lookup ?h1 a of
                           Some (StrokeObj color width) \<Rightarrow> Stroke_clone ?h1 color width
                         | _ \<Rightarrow> (?h1, s))
             | _ \<Rightarrow> (?h1, s))"
  have "\<exists>ys s'. ?step2 = (?h1 @ ys, s')"
  proof (cases "\<exists>a color width. s = Ref a \<and> lookup ?h1 a = Some (StrokeObj color width)")
    case True
    then obtain a color width where s: "s = Ref a" "lookup ?h1 a = Some (StrokeObj color width)"
      by blast
    obtain ys c' where "Stroke_clone ?h1 color width
        = (?h1 @ ys @ [StrokeObj c' width], Ref (length ?h1 + length ys))"
      using Stroke_clone_shape by blast
    then have "?step2 = (?h1 @ (ys @ [StrokeObj c' width]), Ref (length ?h1 + length ys))"
      using s by simp
    then show ?thesis by blast
  next
    case False
    then have "?step2 = (?h1 @ [], s)"
      by (auto split: jsval.splits option.splits obj.splits)
    then show ?thesis by blast
  qed
  then obtain ys s' where s2: "?step2 = (?h1 @ ys, s')" by blast
  have "CircleStyle_clone h f s r
      = (h @ (xs @ ys) @ [CircleObj f' s' r], Ref (length h + length (xs @ ys)))"
    unfolding CircleStyle_clone_def s1 by (simp add: s2 new_CircleStyle_def alloc_def)
  then show ?thesis by blast
qed

lemma invoke_clone_collaborator:
  assumes "collaborator h v"
  shows "\<exists>xs ob' a ob. invoke_clone f h v = Some (Inr (h @ xs @ [ob'], Ref (length h + length xs)))
           \<and> v = Ref a \<and> lookup h a = Some ob \<and> class_of ob' = class_of ob"
proof -
  from assms obtain a ob where v: "v = Ref a" "lookup h a = Some ob"
    and cls: "class_of ob \<in> {''Fill'', ''Stroke'', ''CircleStyle'', ''Text'', ''Geometry''}"
    by (auto simp: collaborator_def split: jsval.splits option.splits)
  show ?thesis
  proof (cases ob)
    case (FillObj c)
    obtain xs c' where "Fill_clone h c = (h @ xs @ [FillObj c'], Ref (length h + length xs))"
      using Fill_clone_shape by blast
    then show ?thesis using v FillObj by (simp add: invoke_clone_def)
  next
    case (StrokeObj c w)
    obtain xs c' where "Stroke_clone h c w = (h @ xs @ [StrokeObj c' w], Ref (length h + length xs))"
      using Stroke_clone_shape by blast
    then show ?thesis using v StrokeObj by (simp add: invoke_clone_def)
  next
    case (CircleObj fl sk r)
    obtain xs f' s' where "CircleStyle_clone h fl sk r
        = (h @ xs @ [CircleObj f' s' r], Ref (length h + length xs))"
      using CircleStyle_clone_shape by blast
    then show ?thesis using v CircleObj by (simp add: invoke_clone_def)
  next
    case (TextObj t)
    have "Text_clone h t = (h @ [] @ [TextObj t], Ref (length h + length ([] :: obj list)))"
      by (simp add: Text_clone_def alloc_def)
    then show ?thesis using v TextObj by (simp add: invoke_clone_def del: append_Nil)
  next
    case (GeometryObj cs)
    have "Geometry_clone h cs
        = (h @ [] @ [GeometryObj cs], Ref (length h + length ([] :: obj list)))"
      by (simp add: Geometry_clone_def alloc_def)
    then show ?thesis using v GeometryObj by (simp add: invoke_clone_def del: append_Nil)
  qed (use cls in simp_all)
qed

lemma fresh_copy_mono:
  "fresh_copy h h1 v v' \<Longrightarrow> fresh_copy h (h1 @ zs) v v'"
  by (auto simp: fresh_copy_def lookup_append_old split: jsval.splits)

lemma collaborator_iff:
  "collaborator h v \<longleftrightarrow>
     (\<exists>a ob. v = Ref a \<and> lookup h a = Some ob \<and>
        class_of ob \<in> {''Fill'', ''Stroke'', ''CircleStyle'', ''Text'', ''Geometry''})"
  by (cases v) (simp_all add: collaborator_def split: option.splits)

lemma collaborator_mono:
  assumes "collaborator h v"
  shows "collaborator (h @ ys) v"
proof -
  from assms obtain a ob where v: "v = Ref a" "lookup h a = Some ob"
      "class_of ob \<in> {''Fill'', ''Stroke'', ''CircleStyle'', ''Text'', ''Geometry''}"
    unfolding collaborator_iff by blast
  have "lookup (h @ ys) a = Some ob"
    using v(2) lookup_Some_less [OF v(2)] by (simp add: lookup_append_old)
  then show ?thesis unfolding collaborator_iff using v by blast
qed

lemmas snapshot_numeral =
  snapshot.simps(2) [of "pred_numeral k" for k, folded numeral_eq_Suc]
  snapshot.simps(2) [of 0, folded One_nat_def]

lemma snapshot_Ref:
  "snapshot (Suc n) h (Ref a) =
     (case lookup h a of
        None \<Rightarrow> Cut
      | Some (Array xs) \<Rightarrow> Node ''Array'' (map (snapshot n h) xs)
      | Some (Dict d) \<Rightarrow> Node ''Object'' (map (\<lambda>(key, x). Prop key (snapshot n h x)) d)
      | Some (StyleObj s) \<Rightarrow>
          Node ''Style''
            [snapshot n h (this_geometry s), snapshot n h (this_geometryFunction s),
             snapshot n h (this_fill s), snapshot n h (this_image s),
             snapshot n h (this_renderer s), snapshot n h (this_stroke s),
             snapshot n h (this_text s), snapshot n h (this_zIndex s)]
      | Some (FillObj color) \<Rightarrow> Node ''Fill'' [snapshot n h color]
      | Some (StrokeObj color width) \<Rightarrow>
          Node ''Stroke'' [snapshot n h color, snapshot n h width]
      | Some (CircleObj fill stroke radius) \<Rightarrow>
          Node ''CircleStyle'' [snapshot n h fill, snapshot n h stroke, snapshot n h radius]
      | Some (TextObj t) \<Rightarrow> Node ''Text'' [Atom (Str t)]
      | Some (GeometryObj coordinates) \<Rightarrow>
          Node ''Geometry'' (map (\<lambda>c. Atom (Num (Fin c))) coordinates)
      | Some (FeatureObj props g) \<Rightarrow>
          Node ''Feature''
            (snapshot n h g # map (\<lambda>(name, x). Node name [snapshot n h x]) props)
      | Some (Opaque k) \<Rightarrow> Node ''Opaque'' [])"
  by simp

lemma snapshot_append:
  "complete (snapshot n h v) \<Longrightarrow> snapshot n (h @ xs) v = snapshot n h v"
proof (induction n arbitrary: v)
  case 0
  then show ?case by simp
next
  case (Suc n)
  show ?case
  proof (cases v)
    case (Ref a)
    show ?thesis
    proof (cases "lookup h a")
      case None
      then show ?thesis using Suc.prems Ref by simp
    next
      case (Some ob)
      then have new: "lookup (h @ xs) a = Some ob"
        using lookup_Some_less [OF Some] by (simp add: lookup_append_old)
      show ?thesis
        using Suc.prems Suc.IH
        unfolding Ref snapshot_Ref Some new
        by (cases ob) (auto simp: list_all_iff)
    qed
  next
    case (Closure c)
    then show ?thesis using Suc by (cases c) auto
  qed (use Suc in auto)
qed

lemma same_content_append: "same_content h v (h @ xs) v"
  by (simp add: same_content_def snapshot_append)

lemma same_content_later:
  assumes "same_content h v h1 v'"
  shows "same_content h v (h1 @ zs) v'"
  unfolding same_content_def
proof (intro allI impI)
  fix n
  assume c: "complete (snapshot n h v)"
  then have eq: "snapshot n h1 v' = snapshot n h v"
    using assms by (simp add: same_content_def)
  then have "complete (snapshot n h1 v')"
    using c by simp
  then show "snapshot n (h1 @ zs) v' = snapshot n h v"
    using eq by (simp add: snapshot_append)
qed

lemma same_content_earlier:
  assumes "same_content (h @ ys) v h' v'"
  shows "same_content h v h' v'"
  unfolding same_content_def
proof (intro allI impI)
  fix n
  assume c: "complete (snapshot n h v)"
  then have eq: "snapshot n (h @ ys) v = snapshot n h v"
    by (rule snapshot_append)
  then have "complete (snapshot n (h @ ys) v)"
    using c by simp
  then show "snapshot n h' v' = snapshot n h v"
    using assms eq by (simp add: same_content_def)
qed

lemma same_content_Array:
  assumes "lookup h a = Some (Array xs)" and "lookup h' a' = Some (Array xs)"
    and "\<And>x. same_content h x h' x"
  shows "same_content h (Ref a) h' (Ref a')"
  unfolding same_content_def
proof (intro allI impI)
  fix n
  assume "complete (snapshot n h (Ref a))"
  then show "snapshot n h' (Ref a') = snapshot n h (Ref a)"
    using assms by (cases n) (auto simp: same_content_def list_all_iff)
qed

lemma same_content_Fill:
  assumes "lookup h a = Some (FillObj c)" and "lookup h' a' = Some (FillObj c')"
    and "same_content h c h' c'"
  shows "same_content h (Ref a) h' (Ref a')"
  unfolding same_content_def
proof (intro allI impI)
  fix n
  assume "complete (snapshot n h (Ref a))"
  then show "snapshot n h' (Ref a') = snapshot n h (Ref a)"
    using assms by (cases n) (auto simp: same_content_def)
qed

lemma same_content_Stroke:
  assumes "lookup h a = Some (StrokeObj c w)" and "lookup h' a' = Some (StrokeObj c' w)"
    and "same_content h c h' c'" and "same_content h w h' w"
  shows "same_content h (Ref a) h' (Ref a')"
  unfolding same_content_def
proof (intro allI impI)
  fix n
  assume "complete (snapshot n h (Ref a))"
  then show "snapshot n h' (Ref a') = snapshot n h (Ref a)"
    using assms by (cases n) (auto simp: same_content_def)
qed

lemma same_content_Circle:
  assumes "lookup h a = Some (CircleObj f k r)" and "lookup h' a' = Some (CircleObj f' k' r)"
    and "same_content h f h' f'" and "same_content h k h' k'" and "same_content h r h' r"
  shows "same_content h (Ref a) h' (Ref a')"
  unfolding same_content_def
proof (intro allI impI)
  fix n
  assume "complete (snapshot n h (Ref a))"
  then show "snapshot n h' (Ref a') = snapshot n h (Ref a)"
    using assms by (cases n) (auto simp: same_content_def)
qed

lemma same_content_Text:
  assumes "lookup h a = Some (TextObj t)" and "lookup h' a' = Some (TextObj t)"
  shows "same_content h (Ref a) h' (Ref a')"
  unfolding same_content_def
proof (intro allI impI)
  fix n
  show "snapshot n h' (Ref a') = snapshot n h (Ref a)"
    using assms by (cases n) auto
qed

lemma same_content_Geometry:
  assumes "lookup h a = Some (GeometryObj cs)" and "lookup h' a' = Some (GeometryObj cs)"
  shows "same_content h (Ref a) h' (Ref a')"
  unfolding same_content_def
proof (intro allI impI)
  fix n
  show "snapshot n h' (Ref a') = snapshot n h (Ref a)"
    using assms by (cases n) auto
qed

lemma copy_color_content:
  assumes "copy_color h c = (h', c')"
  shows "same_content h c h' c' \<and> (\<exists>xs. h' = h @ xs)"
proof (cases "\<exists>a ys. c = Ref a \<and> lookup h a = Some (Array ys)")
  case True
  then obtain a ys where c: "c = Ref a" "lookup h a = Some (Array ys)" by blast
  then have r: "h' = h @ [Array ys]" "c' = Ref (length h)"
    using assms by (simp_all add: copy_color_def alloc_def)
  have "same_content h (Ref a) (h @ [Array ys]) (Ref (length h))"
    using c(2) lookup_last [of h "Array ys"] same_content_append [of h _ "[Array ys]"]
    by (rule same_content_Array)
  then show ?thesis using r c(1) by blast
next
  case False
  then have "h' = h @ []" "c' = c"
    using assms by (auto simp: copy_color_def split: jsval.splits option.splits obj.splits)
  then show ?thesis using same_content_append [of h c "[]"] by blast
qed

lemma Fill_clone_content:
  assumes "lookup h a = Some (FillObj c)" and "Fill_clone h c = (h', v')"
  shows "same_content h (Ref a) h' v' \<and> (\<exists>xs. h' = h @ xs)"
proof -
  obtain h1 c1 where cc: "copy_color h c = (h1, c1)" by (cases "copy_color h c")
  then obtain xs where sc: "same_content h c h1 c1" and h1: "h1 = h @ xs"
    using copy_color_content by blast
  have r: "h' = h1 @ [FillObj c1]" "v' = Ref (length h1)"
    using assms(2) cc by (simp_all add: Fill_clone_def new_Fill_def alloc_def)
  have "same_content h (Ref a) (h1 @ [FillObj c1]) (Ref (length h1))"
    using assms(1) lookup_last [of h1 "FillObj c1"] same_content_later [OF sc]
    by (rule same_content_Fill)
  then show ?thesis using r h1 by auto
qed

lemma Stroke_clone_content:
  assumes "lookup h a = Some (StrokeObj c w)" and "Stroke_clone h c w = (h', v')"
  shows "same_content h (Ref a) h' v' \<and> (\<exists>xs. h' = h @ xs)"
proof -
  obtain h1 c1 where cc: "copy_color h c = (h1, c1)" by (cases "copy_color h c")
  then obtain xs where sc: "same_content h c h1 c1" and h1: "h1 = h @ xs"
    using copy_color_content by blast
  have r: "h' = h1 @ [StrokeObj c1 w]" "v' = Ref (length h1)"
    using assms(2) cc by (simp_all add: Stroke_clone_def new_Stroke_def alloc_def)
  have w: "same_content h w (h1 @ [StrokeObj c1 w]) w"
    using same_content_append [of h w "xs @ [StrokeObj c1 w]"] h1 by simp
  have "same_content h (Ref a) (h1 @ [StrokeObj c1 w]) (Ref (length h1))"
    using assms(1) lookup_last [of h1 "StrokeObj c1 w"] same_content_later [OF sc] w
    by (rule same_content_Stroke)
  then show ?thesis using r h1 by auto
qed

lemma CircleStyle_clone_content:
  assumes "lookup h a = Some (CircleObj f k r)" and "CircleStyle_clone h f k r = (h', v')"
  shows "same_content h (Ref a) h' v'"
proof -
  let ?step1 = "(case f of
               Ref a \<Rightarrow> (case lookup h a of
                           Some (FillObj color) \<Rightarrow> Fill_clone h color
                         | _ \<Rightarrow> (h, f))
             | _ \<Rightarrow> (h, f))"
  obtain h1 f1 where s1: "?step1 = (h1, f1)" by (cases ?step1)
  have p1: "same_content h f h1 f1 \<and> (\<exists>xs. h1 = h @ xs)"
  proof (cases "\<exists>b color. f = Ref b \<and> lookup h b = Some (FillObj color)")
    case True
    then obtain b color where f: "f = Ref b" "lookup h b = Some (FillObj color)" by blast
    then have "Fill_clone h color = (h1, f1)" using s1 by simp
    then show ?thesis using Fill_clone_content [OF f(2)] f(1) by blast
  next
    case False
    then have "h1 = h @ []" "f1 = f"
      using s1 by (auto split: jsval.splits option.splits obj.splits)
    then show ?thesis using same_content_append [of h f "[]"] by blast
  qed
  then obtain xs where h1: "h1 = h @ xs" by blast
  let ?step2 = "(case k of
               Ref a \<Rightarrow> (case lookup h1 a of
                           Some (StrokeObj color width) \<Rightarrow> Stroke_clone h1 color width
                         | _ \<Rightarrow> (h1, k))
             | _ \<Rightarrow> (h1, k))"
  obtain h2 k1 where s2: "?step2 = (h2, k1)" by (cases ?step2)
  have p2: "same_content h1 k h2 k1 \<and> (\<exists>ys. h2 = h1 @ ys)"
  proof (cases "\<exists>b color width. k = Ref b \<and> lookup h1 b = Some (StrokeObj color width)")
    case True
    then obtain b color width where k: "k = Ref b" "lookup h1 b = Some (StrokeObj color width)"
      by blast
    then have "Stroke_clone h1 color width = (h2, k1)" using s2 by simp
    then show ?thesis using Stroke_clone_content [OF k(2)] k(1) by blast
  next
    case False
    then have "h2 = h1 @ []" "k1 = k"
      using s2 by (auto split: jsval.splits option.splits obj.splits)
    then show ?thesis using same_content_append [of h1 k "[]"] by blast
  qed
  then obtain ys where h2: "h2 = h1 @ ys" by blast
  have r: "h' = h2 @ [CircleObj f1 k1 r]" "v' = Ref (length h2)"
    using assms(2) s1 s2
    by (simp_all add: CircleStyle_clone_def new_CircleStyle_def alloc_def)
  have cf: "same_content h f (h2 @ [CircleObj f1 k1 r]) f1"
    using same_content_later [OF conjunct1 [OF p1], of "ys @ [CircleObj f1 k1 r]"] h2 by simp
  have "same_content h1 k (h2 @ [CircleObj f1 k1 r]) k1"
    using same_content_later [OF conjunct1 [OF p2]] .
  then have ck: "same_content h k (h2 @ [CircleObj f1 k1 r]) k1"
    unfolding h1 by (rule same_content_earlier)
  have cr: "same_content h r (h2 @ [CircleObj f1 k1 r]) r"
    using same_content_append [of h r "xs @ ys @ [CircleObj f1 k1 r]"] h1 h2 by simp
  have "same_content h (Ref a) (h2 @ [CircleObj f1 k1 r]) (Ref (length h2))"
    using assms(1) lookup_last [of h2 "CircleObj f1 k1 r"] cf ck cr
    by (rule same_content_Circle)
  then show ?thesis using r by simp
qed

lemma invoke_clone_content:
  assumes "collaborator h v" and "invoke_clone f h v = Some (Inr (h', v'))"
  shows "same_content h v h' v'"
proof -
  from assms(1) obtain a ob where v: "v = Ref a" "lookup h a = Some ob"
    and cls: "class_of ob \<in> {''Fill'', ''Stroke'', ''CircleStyle'', ''Text'', ''Geometry''}"
    unfolding collaborator_iff by blast
  show ?thesis
  proof (cases ob)
    case (FillObj c)
    then have "Fill_clone h c = (h', v')"
      using assms(2) v by (simp add: invoke_clone_def)
    then show ?thesis using Fill_clone_content [of h a c h' v'] v FillObj by simp
  next
    case (StrokeObj c w)
    then have "Stroke_clone h c w = (h', v')"
      using assms(2) v by (simp add: invoke_clone_def)
    then show ?thesis using Stroke_clone_content [of h a c w h' v'] v StrokeObj by simp
  next
    case (CircleObj fl sk r)
    then have "CircleStyle_clone h fl sk r = (h', v')"
      using assms(2) v by (simp add: invoke_clone_def)
    then show ?thesis using CircleStyle_clone_content [of h a fl sk r h' v'] v CircleObj by simp
  next
    case (TextObj t)
    then have r: "h' = h @ [TextObj t]" "v' = Ref (length h)"
      using assms(2) v
      by (simp_all add: invoke_clone_def Text_clone_def Geometry_clone_def alloc_def)
    have "same_content h (Ref a) (h @ [TextObj t]) (Ref (length h))"
      using v(2) [unfolded TextObj] lookup_last [of h "TextObj t"]
      by (rule same_content_Text)
    then show ?thesis using r v(1) by simp
  next
    case (GeometryObj cs)
    then have r: "h' = h @ [GeometryObj cs]" "v' = Ref (length h)"
      using assms(2) v
      by (simp_all add: invoke_clone_def Text_clone_def Geometry_clone_def alloc_def)
    have "same_content h (Ref a) (h @ [GeometryObj cs]) (Ref (length h))"
      using v(2) [unfolded GeometryObj] lookup_last [of h "GeometryObj cs"]
      by (rule same_content_Geometry)
    then show ?thesis using r v(1) by simp
  qed (use cls in simp_all)
qed

lemma collaborator_not_absent: "collaborator h v \<Longrightarrow> \<not> absent v \<and> truthy v"
  by (auto simp: collaborator_def absent_def split: jsval.splits)

lemma absent_not_truthy: "absent v \<Longrightarrow> \<not> truthy v"
  by (auto simp: absent_def)

lemma substyle_step:
  assumes "absent v \<or> collaborator h v"
  shows "\<exists>xs v'. (if truthy v then invoke_clone f (h @ ys) v else Some (Inr (h @ ys, Undefined)))
             = Some (Inr (h @ ys @ xs, v'))
           \<and> (if absent v then v' = Undefined
               else fresh_copy h (h @ ys @ xs) v v' \<and> same_content h v (h @ ys @ xs) v')"
proof (cases "absent v")
  case True
  then have "(if truthy v then invoke_clone f (h @ ys) v else Some (Inr (h @ ys, Undefined)))
      = Some (Inr (h @ ys @ [], Undefined))"
    by (simp add: absent_not_truthy)
  then show ?thesis using True
    by (intro exI [of _ "[]"] exI [of _ Undefined]) simp
next
  case False
  then have c: "collaborator h v" using assms by blast
  then obtain xs ob' a ob where r: "invoke_clone f (h @ ys) v
        = Some (Inr ((h @ ys) @ xs @ [ob'], Ref (length (h @ ys) + length xs)))"
      and v: "v = Ref a" "lookup (h @ ys) a = Some ob" "class_of ob' = class_of ob"
    using invoke_clone_collaborator [OF collaborator_mono [OF c, of ys], of f] by blast
  have a: "a < length h"
    using c v(1) by (auto simp: collaborator_def dest: lookup_Some_less split: option.splits)
  then have old: "lookup h a = Some ob"
    using v(2) by (simp add: lookup_append_old)
  have "length (h @ ys) + length xs = length (h @ ys @ xs)"
    by simp
  then have "lookup (h @ ys @ xs @ [ob']) (length (h @ ys) + length xs) = Some ob'"
    using lookup_last [of "h @ ys @ xs" ob'] by (simp del: length_append)
  then have "fresh_copy h (h @ ys @ (xs @ [ob'])) v (Ref (length (h @ ys) + length xs))"
    using a old v by (simp add: fresh_copy_def)
  moreover have "same_content (h @ ys) v ((h @ ys) @ xs @ [ob'])
      (Ref (length (h @ ys) + length xs))"
    using collaborator_mono [OF c, of ys] r by (rule invoke_clone_content)
  then have "same_content h v (h @ ys @ (xs @ [ob'])) (Ref (length (h @ ys) + length xs))"
    using same_content_earlier [of h ys v] by simp
  moreover have "(if truthy v then invoke_clone f (h @ ys) v else Some (Inr (h @ ys, Undefined)))
      = Some (Inr (h @ ys @ (xs @ [ob']), Ref (length (h @ ys) + length xs)))"
    using r v(1) by simp
  ultimately show ?thesis using False
    by (intro exI [of _ "xs @ [ob']"] exI [of _ "Ref (length (h @ ys) + length xs)"]) simp
qed

lemma has_clone_cases:
  "has_clone h v \<longleftrightarrow> instanceof_Style h v \<or> collaborator h v"
  by (auto simp: has_clone_def instanceof_Style_def collaborator_def
      split: jsval.splits option.splits obj.splits)

lemma geometry_step:
  assumes "\<not> instanceof_Style h g"
  shows "\<exists>xs g'. (if truthy g \<and> has_clone h g then invoke_clone f h g else Some (Inr (h, g)))
             = Some (Inr (h @ xs, g'))
           \<and> (if has_clone h g
               then fresh_copy h (h @ xs) g g' \<and> same_content h g (h @ xs) g'
               else g' = g)"
proof (cases "has_clone h g")
  case True
  then have c: "collaborator h g" using assms by (simp add: has_clone_cases)
  then have "\<not> absent g" by (simp add: collaborator_not_absent)
  then show ?thesis
    using substyle_step [of g h f "[]"] c True by (auto simp: collaborator_not_absent)
next
  case False
  then have "(if truthy g \<and> has_clone h g then invoke_clone f h g else Some (Inr (h, g)))
      = Some (Inr (h @ [], g))"
    by simp
  then show ?thesis using False
    by (intro exI [of _ "[]"] exI [of _ g]) simp
qed

lemma copy_later:
  "fresh_copy h h1 v v' \<and> same_content h v h1 v' \<Longrightarrow>
   fresh_copy h (h1 @ zs) v v' \<and> same_content h v (h1 @ zs) v'"
  by (simp add: fresh_copy_mono same_content_later)

lemma fresh_copy_Ref: "fresh_copy h h' v v' \<Longrightarrow> v' \<noteq> Undefined"
  by (auto simp: fresh_copy_def split: jsval.splits)

lemma Style_fields:
  "this_geometry (Style options)
     = (if opt_geometry options = Undefined then Null else opt_geometry options)"
  "this_fill (Style options) = (if opt_fill options = Undefined then Null else opt_fill options)"
  "this_image (Style options) = (if opt_image options = Undefined then Null else opt_image options)"
  "this_renderer (Style options)
     = (if opt_renderer options = Undefined then Null else opt_renderer options)"
  "this_stroke (Style options)
     = (if opt_stroke options = Undefined then Null else opt_stroke options)"
  "this_text (Style options) = (if opt_text options = Undefined then Null else opt_text options)"
  "this_zIndex (Style options) = opt_zIndex options"
  by (simp_all add: Style_def Let_def setGeometry_def)

lemma bind_Inr: "bind (Some (Inr (h, v))) k = k h v"
  by (simp add: bind_def)

lemma clone_typed:
  assumes s: "lookup h a = Some (StyleObj s)"
    and g: "\<not> instanceof_Style h (this_geometry s)"
    and f: "absent (this_fill s) \<or> collaborator h (this_fill s)"
    and i: "absent (this_image s) \<or> collaborator h (this_image s)"
    and k: "absent (this_stroke s) \<or> collaborator h (this_stroke s)"
    and t: "absent (this_text s) \<or> collaborator h (this_text s)"
  shows "\<exists>xs s'. clone (Suc n) h (Ref a)
             = Some (Inr (h @ xs @ [StyleObj s'], Ref (length h + length xs)))
      \<and> (if has_clone h (this_geometry s)
          then fresh_copy h (h @ xs) (this_geometry s) (this_geometry s') \<and>
               same_content h (this_geometry s) (h @ xs) (this_geometry s')
          else this_geometry s'
                 = (if this_geometry s = Undefined then Null else this_geometry s))
      \<and> (if absent (this_fill s) then this_fill s' = Null
          else fresh_copy h (h @ xs) (this_fill s) (this_fill s') \<and>
               same_content h (this_fill s) (h @ xs) (this_fill s'))
      \<and> (if absent (this_image s) then this_image s' = Null
          else fresh_copy h (h @ xs) (this_image s) (this_image s') \<and>
               same_content h (this_image s) (h @ xs) (this_image s'))
      \<and> (if absent (this_stroke s) then this_stroke s' = Null
          else fresh_copy h (h @ xs) (this_stroke s) (this_stroke s') \<and>
               same_content h (this_stroke s) (h @ xs) (this_stroke s'))
      \<and> (if absent (this_text s) then this_text s' = Null
          else fresh_copy h (h @ xs) (this_text s) (this_text s') \<and>
               same_content h (this_text s) (h @ xs) (this_text s'))
      \<and> this_zIndex s' = this_zIndex s
      \<and> this_renderer s' = Null"
proof -
  let ?f = "clone n"
  obtain x0 g' where r0: "(if truthy (this_geometry s) \<and> has_clone h (this_geometry s)
        then invoke_clone ?f h (this_geometry s) else Some (Inr (h, this_geometry s)))
        = Some (Inr (h @ x0, g'))"
    and p0: "if has_clone h (this_geometry s) then fresh_copy h (h @ x0) (this_geometry s) g' \<and>
                                                   same_content h (this_geometry s) (h @ x0) g'
             else g' = this_geometry s"
    using geometry_step [OF g, of ?f] by blast
  obtain x1 f' where r1: "(if truthy (this_fill s) then invoke_clone ?f (h @ x0) (this_fill s)
        else Some (Inr (h @ x0, Undefined))) = Some (Inr (h @ x0 @ x1, f'))"
    and p1: "if absent (this_fill s) then f' = Undefined
             else fresh_copy h (h @ x0 @ x1) (this_fill s) f' \<and>
                  same_content h (this_fill s) (h @ x0 @ x1) f'"
    using substyle_step [OF f, of ?f x0] by blast
  obtain x2 i' where r2: "(if truthy (this_image s)
        then invoke_clone ?f (h @ (x0 @ x1)) (this_image s)
        else Some (Inr (h @ (x0 @ x1), Undefined))) = Some (Inr (h @ x0 @ x1 @ x2, i'))"
    and p2: "if absent (this_image s) then i' = Undefined
             else fresh_copy h (h @ x0 @ x1 @ x2) (this_image s) i' \<and>
                  same_content h (this_image s) (h @ x0 @ x1 @ x2) i'"
    using substyle_step [OF i, of ?f "x0 @ x1", unfolded append_assoc] by blast
  obtain x3 k' where r3: "(if truthy (this_stroke s)
        then invoke_clone ?f (h @ (x0 @ x1 @ x2)) (this_stroke s)
        else Some (Inr (h @ (x0 @ x1 @ x2), Undefined)))
        = Some (Inr (h @ x0 @ x1 @ x2 @ x3, k'))"
    and p3: "if absent (this_stroke s) then k' = Undefined
             else fresh_copy h (h @ x0 @ x1 @ x2 @ x3) (this_stroke s) k' \<and>
                  same_content h (this_stroke s) (h @ x0 @ x1 @ x2 @ x3) k'"
    using substyle_step [OF k, of ?f "x0 @ x1 @ x2", unfolded append_assoc] by blast
  obtain x4 t' where r4: "(if truthy (this_text s)
        then invoke_clone ?f (h @ (x0 @ x1 @ x2 @ x3)) (this_text s)
        else Some (Inr (h @ (x0 @ x1 @ x2 @ x3), Undefined)))
        = Some (Inr (h @ x0 @ x1 @ x2 @ x3 @ x4, t'))"
    and p4: "if absent (this_text s) then t' = Undefined
             else fresh_copy h (h @ x0 @ x1 @ x2 @ x3 @ x4) (this_text s) t' \<and>
                  same_content h (this_text s) (h @ x0 @ x1 @ x2 @ x3 @ x4) t'"
    using substyle_step [OF t, of ?f "x0 @ x1 @ x2 @ x3", unfolded append_assoc] by blast
  let ?xs = "x0 @ x1 @ x2 @ x3 @ x4"
  let ?opts = "\<lparr>opt_geometry = g', opt_fill = f', opt_image = i', opt_renderer = Undefined,
                opt_stroke = k', opt_text = t', opt_zIndex = this_zIndex s\<rparr>"
  let ?s' = "Style ?opts"
  have run: "clone (Suc n) h (Ref a)
      = Some (Inr (h @ ?xs @ [StyleObj ?s'], Ref (length h + length ?xs)))"
    unfolding clone.simps getGeometry_def getFill_def getImage_def getStroke_def getText_def
      getZIndex_def
    by (simp only: s jsval.case option.case obj.case r0 r1 r2 r3 r4 bind_Inr)
      (simp add: new_Style_def alloc_def)
  have q0: "if has_clone h (this_geometry s)
      then fresh_copy h (h @ ?xs) (this_geometry s) (this_geometry ?s') \<and>
           same_content h (this_geometry s) (h @ ?xs) (this_geometry ?s')
      else this_geometry ?s' = (if this_geometry s = Undefined then Null else this_geometry s)"
  proof (cases "has_clone h (this_geometry s)")
    case True
    then have fc: "fresh_copy h (h @ x0) (this_geometry s) g' \<and>
                   same_content h (this_geometry s) (h @ x0) g'" using p0 by simp
    then have "fresh_copy h ((h @ x0) @ (x1 @ x2 @ x3 @ x4)) (this_geometry s) g' \<and>
               same_content h (this_geometry s) ((h @ x0) @ (x1 @ x2 @ x3 @ x4)) g'"
      by (rule copy_later)
    then show ?thesis using True fresh_copy_Ref [OF conjunct1 [OF fc]] by (simp add: Style_fields)
  next
    case False
    then show ?thesis using p0 by (simp add: Style_fields)
  qed
  have q1: "if absent (this_fill s) then this_fill ?s' = Null
      else fresh_copy h (h @ ?xs) (this_fill s) (this_fill ?s') \<and>
           same_content h (this_fill s) (h @ ?xs) (this_fill ?s')"
  proof (cases "absent (this_fill s)")
    case True
    then show ?thesis using p1 by (simp add: Style_fields)
  next
    case False
    then have fc: "fresh_copy h (h @ x0 @ x1) (this_fill s) f' \<and>
                   same_content h (this_fill s) (h @ x0 @ x1) f'" using p1 by simp
    then have "fresh_copy h ((h @ x0 @ x1) @ (x2 @ x3 @ x4)) (this_fill s) f' \<and>
               same_content h (this_fill s) ((h @ x0 @ x1) @ (x2 @ x3 @ x4)) f'"
      by (rule copy_later)
    then show ?thesis using False fresh_copy_Ref [OF conjunct1 [OF fc]] by (simp add: Style_fields)
  qed
  have q2: "if absent (this_image s) then this_image ?s' = Null
      else fresh_copy h (h @ ?xs) (this_image s) (this_image ?s') \<and>
           same_content h (this_image s) (h @ ?xs) (this_image ?s')"
  proof (cases "absent (this_image s)")
    case True
    then show ?thesis using p2 by (simp add: Style_fields)
  next
    case False
    then have fc: "fresh_copy h (h @ x0 @ x1 @ x2) (this_image s) i' \<and>
                   same_content h (this_image s) (h @ x0 @ x1 @ x2) i'" using p2 by simp
    then have "fresh_copy h ((h @ x0 @ x1 @ x2) @ (x3 @ x4)) (this_image s) i' \<and>
               same_content h (this_image s) ((h @ x0 @ x1 @ x2) @ (x3 @ x4)) i'"
      by (rule copy_later)
    then show ?thesis using False fresh_copy_Ref [OF conjunct1 [OF fc]] by (simp add: Style_fields)
  qed
  have q3: "if absent (this_stroke s) then this_stroke ?s' = Null
      else fresh_copy h (h @ ?xs) (this_stroke s) (this_stroke ?s') \<and>
           same_content h (this_stroke s) (h @ ?xs) (this_stroke ?s')"
  proof (cases "absent (this_stroke s)")
    case True
    then show ?thesis using p3 by (simp add: Style_fields)
  next
    case False
    then have fc: "fresh_copy h (h @ x0 @ x1 @ x2 @ x3) (this_stroke s) k' \<and>
                   same_content h (this_stroke s) (h @ x0 @ x1 @ x2 @ x3) k'" using p3 by simp
    then have "fresh_copy h ((h @ x0 @ x1 @ x2 @ x3) @ x4) (this_stroke s) k' \<and>
               same_content h (this_stroke s) ((h @ x0 @ x1 @ x2 @ x3) @ x4) k'"
      by (rule copy_later)
    then show ?thesis using False fresh_copy_Ref [OF conjunct1 [OF fc]] by (simp add: Style_fields)
  qed
  have q4: "if absent (this_text s) then this_text ?s' = Null
      else fresh_copy h (h @ ?xs) (this_text s) (this_text ?s') \<and>
           same_content h (this_text s) (h @ ?xs) (this_text ?s')"
  proof (cases "absent (this_text s)")
    case True
    then show ?thesis using p4 by (simp add: Style_fields)
  next
    case False
    then have fc: "fresh_copy h (h @ x0 @ x1 @ x2 @ x3 @ x4) (this_text s) t' \<and>
                   same_content h (this_text s) (h @ x0 @ x1 @ x2 @ x3 @ x4) t'" using p4 by simp
    then show ?thesis using False fresh_copy_Ref [OF conjunct1 [OF fc]] by (simp add: Style_fields)
  qed
  have q5: "this_zIndex ?s' = this_zIndex s \<and> this_renderer ?s' = Null"
    by (simp add: Style_fields)
  show ?thesis
    using run q0 q1 q2 q3 q4 q5 by blast
qed

lemma bind_eq_Inr:
  "bind r k = Some (Inr x) \<Longrightarrow> \<exists>h v. r = Some (Inr (h, v)) \<and> k h v = Some (Inr x)"
  by (auto simp: bind_def split: option.splits sum.splits)

lemma clone_renderer:
  assumes "clone n h this = Some (Inr (h', c))"
  shows "\<exists>a s'. c = Ref a \<and> lookup h' a = Some (StyleObj s') \<and> getRenderer s' = Null"
proof (cases n)
  case 0
  then show ?thesis using assms by simp
next
  case (Suc m)
  from assms Suc obtain a s where th: "this = Ref a" "lookup h a = Some (StyleObj s)"
    by (auto split: jsval.splits option.splits obj.splits)
  from assms obtain h5 g f i k t where
    "Some (Inr (new_Style h5
       \<lparr>opt_geometry = g, opt_fill = f, opt_image = i, opt_renderer = Undefined,
        opt_stroke = k, opt_text = t, opt_zIndex = getZIndex s\<rparr>)) = Some (Inr (h', c))"
    unfolding Suc clone.simps th jsval.case option.case obj.case
    by (blast dest: bind_eq_Inr)
  then have "h' = h5 @ [StyleObj (Style
       \<lparr>opt_geometry = g, opt_fill = f, opt_image = i, opt_renderer = Undefined,
        opt_stroke = k, opt_text = t, opt_zIndex = getZIndex s\<rparr>)]" and "c = Ref (length h5)"
    by (simp_all add: new_Style_def alloc_def)
  then show ?thesis
    by (simp add: lookup_last getRenderer_def Style_fields)
qed














































lemma example_style_fields:
  "getGeometry example_style = Ref 0" "getFill example_style = Ref 2"
  "getImage example_style = Ref 4" "getStroke example_style = Ref 3"
  "getText example_style = Ref 5" "getZIndex example_style = Num (Fin 7)"
  "getRenderer example_style = Callback 1"
  by (simp_all add: example_style_def Style_def setGeometry_def setRenderer_def getGeometry_def
      getFill_def getImage_def getStroke_def getText_def getZIndex_def getRenderer_def)

lemma example_heap_lookup:
  "lookup example_heap 0 = Some (GeometryObj [1, 2])"
  "lookup example_heap 2 = Some (FillObj (Ref 1))"
  "lookup example_heap 3 = Some (StrokeObj (Str ''#3399CC'') (Num (Fin 1.25)))"
  "lookup example_heap 4 = Some (CircleObj (Ref 2) (Ref 3) (Num (Fin 5)))"
  "lookup example_heap 5 = Some (TextObj ''label'')"
  "lookup example_heap 6 = Some (StyleObj example_style)"
  by (simp_all add: example_heap_def lookup_def example_style_def)

lemma example_typed:
  "\<not> instanceof_Style example_heap (getGeometry example_style)"
  "has_clone example_heap (getGeometry example_style)"
  "collaborator example_heap (getFill example_style)"
  "collaborator example_heap (getImage example_style)"
  "collaborator example_heap (getStroke example_style)"
  "collaborator example_heap (getText example_style)"
  by (simp_all add: example_style_fields example_heap_lookup instanceof_Style_def
      has_clone_def collaborator_def)









text \<open>
  C3. Whenever \<^verbatim>\<open>clone()\<close> returns, on any descriptor and with any renderer set, it
  returns a descriptor whose \<^verbatim>\<open>getRenderer()\<close> is \<^verbatim>\<open>null\<close>; and it does return on every
  descriptor whose fields hold what their types allow.
\<close>

theorem clone_drops_renderer:
  "(clone n h this = Some (Inr (h', c)) \<longrightarrow>
      (\<exists>a s'. c = Ref a \<and> lookup h' a = Some (StyleObj s') \<and> getRenderer s' = Null)) \<and>
   (lookup h a = Some (StyleObj s) \<and> \<not> instanceof_Style h (getGeometry s) \<and>
    (absent (getFill s) \<or> collaborator h (getFill s)) \<and>
    (absent (getImage s) \<or> collaborator h (getImage s)) \<and>
    (absent (getStroke s) \<or> collaborator h (getStroke s)) \<and>
    (absent (getText s) \<or> collaborator h (getText s)) \<longrightarrow>
      (\<exists>h1 c1. clone (Suc m) h (Ref a) = Some (Inr (h1, c1))))"
proof (intro conjI impI)
  assume "clone n h this = Some (Inr (h', c))"
  then show "\<exists>a s'. c = Ref a \<and> lookup h' a = Some (StyleObj s') \<and> getRenderer s' = Null"
    by (rule clone_renderer)
next
  assume "lookup h a = Some (StyleObj s) \<and> \<not> instanceof_Style h (getGeometry s) \<and>
    (absent (getFill s) \<or> collaborator h (getFill s)) \<and>
    (absent (getImage s) \<or> collaborator h (getImage s)) \<and>
    (absent (getStroke s) \<or> collaborator h (getStroke s)) \<and>
    (absent (getText s) \<or> collaborator h (getText s))"
  then show "\<exists>h1 c1. clone (Suc m) h (Ref a) = Some (Inr (h1, c1))"
    using clone_typed [of h a s m]
    unfolding getGeometry_def getFill_def getImage_def getStroke_def getText_def
    by blast
qed

theorem clone_drops_renderer_witness:
  "lookup example_heap 6 = Some (StyleObj example_style) \<and>
   \<not> instanceof_Style example_heap (getGeometry example_style) \<and>
   collaborator example_heap (getFill example_style) \<and>
   collaborator example_heap (getImage example_style) \<and>
   collaborator example_heap (getStroke example_style) \<and>
   collaborator example_heap (getText example_style) \<and>
   getRenderer example_style = Callback 1 \<and>
   (\<exists>h1 a s'. clone (Suc 0) example_heap (Ref 6) = Some (Inr (h1, Ref a)) \<and>
      lookup h1 a = Some (StyleObj s') \<and> getRenderer s' = Null)"
proof -
  obtain h1 c1 where r: "clone (Suc 0) example_heap (Ref 6) = Some (Inr (h1, c1))"
    using clone_drops_renderer [where h = example_heap and a = 6 and s = example_style and m = 0]
      example_heap_lookup(6) example_typed
    by blast
  then obtain a s' where "c1 = Ref a" "lookup h1 a = Some (StyleObj s')" "getRenderer s' = Null"
    using clone_drops_renderer [where n = "Suc 0" and h = example_heap and this = "Ref 6"
        and h' = h1 and c = c1]
    by blast
  then show ?thesis
    using r example_heap_lookup(6) example_typed example_style_fields(7) by blast
qed

section \<open>Properties of the style function adapter\<close>


lemma isArray_object: "isArray h ob \<Longrightarrow> typeof ob = ''object''"
  by (cases ob) (simp_all add: isArray_def)

lemma instanceof_Style_object: "instanceof_Style h ob \<Longrightarrow> typeof ob = ''object''"
  by (cases ob) (simp_all add: instanceof_Style_def)

lemma instanceof_Style_not_Array: "instanceof_Style h ob \<Longrightarrow> \<not> isArray h ob"
  by (cases ob) (auto simp: instanceof_Style_def isArray_def split: option.splits obj.splits)

lemma toFunction_Array:
  "isArray h ob \<Longrightarrow> toFunction h ob = Inr (h, Closure (StylesFunction ob))"
  by (simp add: toFunction_def isArray_object)

lemma toFunction_Style:
  "instanceof_Style h ob \<Longrightarrow>
   toFunction h ob = Inr (h @ [Array [ob]], Closure (StylesFunction (Ref (length h))))"
  by (simp add: toFunction_def instanceof_Style_object instanceof_Style_not_Array
      assert_def alloc_def)



lemma example_shapes:
  "isArray example_heap (Ref 9)" "instanceof_Style example_heap (Ref 6)"
  "\<not> isArray example_heap (Str ''x'')" "\<not> instanceof_Style example_heap (Str ''x'')"
  by (simp_all add: isArray_def instanceof_Style_def example_heap_def lookup_def)


text \<open>
  C10. For an array, \<^verbatim>\<open>toFunction\<close> allocates nothing and its function returns the
  caller's array at every call, in every later heap and for all arguments, so that a
  later write to that array is what a reader of the result finds. For a descriptor,
  \<^verbatim>\<open>toFunction\<close> allocates the one-element array once, and its function returns that same
  array at every call.
\<close>

theorem toFunction_same_sequence:
  "(isArray h (Ref a) \<longrightarrow>
      toFunction h (Ref a) = Inr (h, Closure (StylesFunction (Ref a))) \<and>
      (\<forall>h' args. call h' (StylesFunction (Ref a)) args = Inr (Ref a)) \<and>
      (\<forall>ys. lookup (h[a := Array ys]) a = Some (Array ys))) \<and>
   (instanceof_Style h ob \<longrightarrow>
      toFunction h ob = Inr (h @ [Array [ob]], Closure (StylesFunction (Ref (length h)))) \<and>
      (\<forall>h' args. call h' (StylesFunction (Ref (length h))) args = Inr (Ref (length h))) \<and>
      lookup (h @ [Array [ob]]) (length h) = Some (Array [ob]))"
proof (intro conjI impI allI)
  fix ys
  assume "isArray h (Ref a)"
  then have "a < length h"
    by (auto simp: isArray_def dest: lookup_Some_less split: option.splits)
  then show "lookup (h[a := Array ys]) a = Some (Array ys)"
    by (simp add: lookup_def)
qed (simp_all add: toFunction_Array toFunction_Style lookup_last)

theorem toFunction_same_sequence_witness:
  "isArray example_heap (Ref 9) \<and>
   toFunction example_heap (Ref 9) = Inr (example_heap, Closure (StylesFunction (Ref 9))) \<and>
   call example_heap (StylesFunction (Ref 9)) [Ref 7, Num (Fin 2)] = Inr (Ref 9) \<and>
   call (example_heap[9 := Array []]) (StylesFunction (Ref 9)) [] = Inr (Ref 9) \<and>
   lookup (example_heap[9 := Array []]) 9 = Some (Array []) \<and>
   instanceof_Style example_heap (Ref 6) \<and>
   toFunction example_heap (Ref 6)
     = Inr (example_heap @ [Array [Ref 6]], Closure (StylesFunction (Ref 10))) \<and>
   call (example_heap @ [Array [Ref 6]]) (StylesFunction (Ref 10)) [Ref 7, Num (Fin 2)]
     = Inr (Ref 10) \<and>
   call (example_heap @ [Array [Ref 6]]) (StylesFunction (Ref 10)) [] = Inr (Ref 10) \<and>
   lookup (example_heap @ [Array [Ref 6]]) 10 = Some (Array [Ref 6])"
proof -
  have "length example_heap = 10"
    by (simp add: example_heap_def)
  then show ?thesis
    using toFunction_same_sequence [of example_heap 9 "Ref 6"] example_shapes
    by simp
qed

section \<open>Properties of the default style\<close>

lemma createDefaultStyle_first:
  assumes "\<not> truthy (defaultStyles st)"
  shows "createDefaultStyle st feature resolution =
     (st\<lparr>objects := objects st @
            [FillObj (Str ''rgba(255,255,255,0.4)''),
             StrokeObj (Str ''#3399CC'') (Num (Fin 1.25)),
             CircleObj (Ref (length (objects st))) (Ref (length (objects st) + 1)) (Num (Fin 5)),
             StyleObj (Style (no_options\<lparr>opt_image := Ref (length (objects st) + 2),
                 opt_fill := Ref (length (objects st)),
                 opt_stroke := Ref (length (objects st) + 1)\<rparr>)),
             Array [Ref (length (objects st) + 3)]],
          defaultStyles := Ref (length (objects st) + 4)\<rparr>,
      Ref (length (objects st) + 4))"
  using assms
  by (simp add: createDefaultStyle_def new_Fill_def new_Stroke_def new_CircleStyle_def
      new_Style_def alloc_def Let_def)

lemma createDefaultStyle_again:
  "truthy (defaultStyles st) \<Longrightarrow> createDefaultStyle st feature resolution = (st, defaultStyles st)"
  by (simp add: createDefaultStyle_def)

lemma lookup_new: "k < length xs \<Longrightarrow> lookup (h @ xs) (length h + k) = Some (xs ! k)"
  by (simp add: lookup_def nth_append)

text \<open>
  C5. While \<^verbatim>\<open>defaultStyles\<close> is unset, \<^verbatim>\<open>createDefaultStyle\<close> allocates five objects and
  touches no other: an array of one descriptor, the descriptor, its fill, its stroke and
  its image. The fill of the descriptor (what \<^verbatim>\<open>getFill()\<close> returns) is a fill of the colour
  \<^verbatim>\<open>rgba(255,255,255,0.4)\<close>, its stroke is a stroke of the colour \<^verbatim>\<open>#3399CC\<close> and width
  1.25, and its image is a circle of radius 5 that holds that same fill object and that
  same stroke object; the descriptor has nothing else set. The function stores the array
  in \<^verbatim>\<open>defaultStyles\<close>; every call in a state where the variable still holds it returns
  that same reference and changes nothing, so the objects behind it are the same too. The
  feature and the resolution never affect the result.
\<close>

theorem createDefaultStyle_memoized:
  "(\<not> truthy (defaultStyles st) \<longrightarrow>
      (\<exists>st1 arr s d fl sk im.
         createDefaultStyle st feature resolution = (st1, Ref arr) \<and>
         defaultStyles st1 = Ref arr \<and>
         take (length (objects st)) (objects st1) = objects st \<and>
         length (objects st1) = length (objects st) + 5 \<and>
         lookup (objects st1) arr = Some (Array [Ref s]) \<and>
         lookup (objects st1) s = Some (StyleObj d) \<and>
         getFill d = Ref fl \<and> getStroke d = Ref sk \<and> getImage d = Ref im \<and>
         getText d = Null \<and> getRenderer d = Null \<and> getGeometry d = Null \<and>
         getGeometryFunction d = Closure DefaultGeometryFunction \<and> getZIndex d = Undefined \<and>
         lookup (objects st1) fl = Some (FillObj (Str ''rgba(255,255,255,0.4)'')) \<and>
         lookup (objects st1) sk = Some (StrokeObj (Str ''#3399CC'') (Num (Fin 1.25))) \<and>
         lookup (objects st1) im = Some (CircleObj (Ref fl) (Ref sk) (Num (Fin 5))) \<and>
         distinct [arr, s, fl, sk, im] \<and>
         (\<forall>st2 feature2 resolution2. defaultStyles st2 = defaultStyles st1 \<longrightarrow>
            createDefaultStyle st2 feature2 resolution2 = (st2, Ref arr)))) \<and>
   (truthy (defaultStyles st) \<longrightarrow>
      createDefaultStyle st feature resolution = (st, defaultStyles st)) \<and>
   createDefaultStyle st feature resolution = createDefaultStyle st feature' resolution'"
proof (intro conjI impI)
  assume first: "\<not> truthy (defaultStyles st)"
  let ?b = "length (objects st)"
  let ?d = "Style (no_options\<lparr>opt_image := Ref (?b + 2),
                 opt_fill := Ref ?b, opt_stroke := Ref (?b + 1)\<rparr>)"
  let ?new = "[FillObj (Str ''rgba(255,255,255,0.4)''),
             StrokeObj (Str ''#3399CC'') (Num (Fin 1.25)),
             CircleObj (Ref ?b) (Ref (?b + 1)) (Num (Fin 5)),
             StyleObj ?d,
             Array [Ref (?b + 3)]]"
  let ?st1 = "st\<lparr>objects := objects st @ ?new, defaultStyles := Ref (?b + 4)\<rparr>"
  have run: "createDefaultStyle st feature resolution = (?st1, Ref (?b + 4))"
    using first by (rule createDefaultStyle_first)
  have again: "\<forall>st2 feature2 resolution2. defaultStyles st2 = defaultStyles ?st1 \<longrightarrow>
      createDefaultStyle st2 feature2 resolution2 = (st2, Ref (?b + 4))"
    by (simp add: createDefaultStyle_again)
  have look: "lookup (objects ?st1) (?b + 4) = Some (Array [Ref (?b + 3)])"
    "lookup (objects ?st1) (?b + 3) = Some (StyleObj ?d)"
    "lookup (objects ?st1) ?b = Some (FillObj (Str ''rgba(255,255,255,0.4)''))"
    "lookup (objects ?st1) (?b + 1) = Some (StrokeObj (Str ''#3399CC'') (Num (Fin 1.25)))"
    "lookup (objects ?st1) (?b + 2) = Some (CircleObj (Ref ?b) (Ref (?b + 1)) (Num (Fin 5)))"
    using lookup_new [of 4 ?new "objects st"] lookup_new [of 3 ?new "objects st"]
      lookup_new [of 0 ?new "objects st"] lookup_new [of 1 ?new "objects st"]
      lookup_new [of 2 ?new "objects st"]
    by simp_all
  have fields: "getFill ?d = Ref ?b" "getStroke ?d = Ref (?b + 1)" "getImage ?d = Ref (?b + 2)"
    "getText ?d = Null" "getRenderer ?d = Null" "getGeometry ?d = Null"
    "getGeometryFunction ?d = Closure DefaultGeometryFunction" "getZIndex ?d = Undefined"
    by (simp_all add: Style_def no_options_def getFill_def getStroke_def getImage_def
        getText_def getRenderer_def getGeometry_def getGeometryFunction_def getZIndex_def)
  show "\<exists>st1 arr s d fl sk im.
         createDefaultStyle st feature resolution = (st1, Ref arr) \<and>
         defaultStyles st1 = Ref arr \<and>
         take (length (objects st)) (objects st1) = objects st \<and>
         length (objects st1) = length (objects st) + 5 \<and>
         lookup (objects st1) arr = Some (Array [Ref s]) \<and>
         lookup (objects st1) s = Some (StyleObj d) \<and>
         getFill d = Ref fl \<and> getStroke d = Ref sk \<and> getImage d = Ref im \<and>
         getText d = Null \<and> getRenderer d = Null \<and> getGeometry d = Null \<and>
         getGeometryFunction d = Closure DefaultGeometryFunction \<and> getZIndex d = Undefined \<and>
         lookup (objects st1) fl = Some (FillObj (Str ''rgba(255,255,255,0.4)'')) \<and>
         lookup (objects st1) sk = Some (StrokeObj (Str ''#3399CC'') (Num (Fin 1.25))) \<and>
         lookup (objects st1) im = Some (CircleObj (Ref fl) (Ref sk) (Num (Fin 5))) \<and>
         distinct [arr, s, fl, sk, im] \<and>
         (\<forall>st2 feature2 resolution2. defaultStyles st2 = defaultStyles st1 \<longrightarrow>
            createDefaultStyle st2 feature2 resolution2 = (st2, Ref arr))"
    apply (rule exI [of _ ?st1], rule exI [of _ "?b + 4"], rule exI [of _ "?b + 3"],
        rule exI [of _ ?d], rule exI [of _ ?b], rule exI [of _ "?b + 1"],
        rule exI [of _ "?b + 2"])
    apply (intro conjI)
    apply (rule run)
    apply simp
    apply simp
    apply simp
    apply (rule look(1))
    apply (rule look(2))
    apply (rule fields(1))
    apply (rule fields(2))
    apply (rule fields(3))
    apply (rule fields(4))
    apply (rule fields(5))
    apply (rule fields(6))
    apply (rule fields(7))
    apply (rule fields(8))
    apply (rule look(3))
    apply (rule look(4))
    apply (rule look(5))
    apply simp
    apply (rule again)
    done
next
  assume "truthy (defaultStyles st)"
  then show "createDefaultStyle st feature resolution = (st, defaultStyles st)"
    by (rule createDefaultStyle_again)
next
  show "createDefaultStyle st feature resolution = createDefaultStyle st feature' resolution'"
    by (simp add: createDefaultStyle_def)
qed

text \<open>
  The first call in a state where the variable is \<^verbatim>\<open>null\<close>, a second call in the state the
  first one leaves, with other arguments, and a call in a state where the variable holds
  an array.
\<close>

theorem createDefaultStyle_memoized_witness:
  "\<not> truthy (defaultStyles \<lparr>objects = example_heap, defaultStyles = Null\<rparr>) \<and>
   (\<exists>st1 arr s d fl sk.
      createDefaultStyle \<lparr>objects = example_heap, defaultStyles = Null\<rparr> Undefined Undefined
        = (st1, Ref arr) \<and>
      defaultStyles st1 = Ref arr \<and> truthy (defaultStyles st1) \<and>
      lookup (objects st1) arr = Some (Array [Ref s]) \<and>
      lookup (objects st1) s = Some (StyleObj d) \<and>
      getFill d = Ref fl \<and> getStroke d = Ref sk \<and>
      lookup (objects st1) fl = Some (FillObj (Str ''rgba(255,255,255,0.4)'')) \<and>
      lookup (objects st1) sk = Some (StrokeObj (Str ''#3399CC'') (Num (Fin 1.25))) \<and>
      lookup (objects st1) (case getImage d of Ref im \<Rightarrow> im | _ \<Rightarrow> 0)
        = Some (CircleObj (Ref fl) (Ref sk) (Num (Fin 5))) \<and>
      createDefaultStyle st1 (Ref 7) (Num (Fin 2)) = (st1, Ref arr)) \<and>
   truthy (defaultStyles \<lparr>objects = example_heap, defaultStyles = Ref 9\<rparr>) \<and>
   createDefaultStyle \<lparr>objects = example_heap, defaultStyles = Ref 9\<rparr> (Ref 7) (Num (Fin 2))
     = (\<lparr>objects = example_heap, defaultStyles = Ref 9\<rparr>, Ref 9)"
proof -
  let ?st = "\<lparr>objects = example_heap, defaultStyles = Null\<rparr>"
  let ?st' = "\<lparr>objects = example_heap, defaultStyles = Ref 9\<rparr>"
  have first: "\<not> truthy (defaultStyles ?st)"
    by simp
  then obtain st1 arr s d fl sk im where
      r: "createDefaultStyle ?st Undefined Undefined = (st1, Ref arr)"
      "defaultStyles st1 = Ref arr"
      "lookup (objects st1) arr = Some (Array [Ref s])"
      "lookup (objects st1) s = Some (StyleObj d)"
      "getFill d = Ref fl" "getStroke d = Ref sk" "getImage d = Ref im"
      "lookup (objects st1) fl = Some (FillObj (Str ''rgba(255,255,255,0.4)''))"
      "lookup (objects st1) sk = Some (StrokeObj (Str ''#3399CC'') (Num (Fin 1.25)))"
      "lookup (objects st1) im = Some (CircleObj (Ref fl) (Ref sk) (Num (Fin 5)))"
    and again: "\<forall>st2 feature2 resolution2. defaultStyles st2 = defaultStyles st1 \<longrightarrow>
            createDefaultStyle st2 feature2 resolution2 = (st2, Ref arr)"
    using createDefaultStyle_memoized [of ?st Undefined Undefined] by blast
  from again have "createDefaultStyle st1 (Ref 7) (Num (Fin 2)) = (st1, Ref arr)"
    by blast
  then have "\<exists>st1 arr s d fl sk.
      createDefaultStyle ?st Undefined Undefined = (st1, Ref arr) \<and>
      defaultStyles st1 = Ref arr \<and> truthy (defaultStyles st1) \<and>
      lookup (objects st1) arr = Some (Array [Ref s]) \<and>
      lookup (objects st1) s = Some (StyleObj d) \<and>
      getFill d = Ref fl \<and> getStroke d = Ref sk \<and>
      lookup (objects st1) fl = Some (FillObj (Str ''rgba(255,255,255,0.4)'')) \<and>
      lookup (objects st1) sk = Some (StrokeObj (Str ''#3399CC'') (Num (Fin 1.25))) \<and>
      lookup (objects st1) (case getImage d of Ref im \<Rightarrow> im | _ \<Rightarrow> 0)
        = Some (CircleObj (Ref fl) (Ref sk) (Num (Fin 5))) \<and>
      createDefaultStyle st1 (Ref 7) (Num (Fin 2)) = (st1, Ref arr)"
    using r
    by (intro exI [of _ st1] exI [of _ arr] exI [of _ s] exI [of _ d] exI [of _ fl]
        exI [of _ sk]) simp
  moreover have "truthy (defaultStyles ?st') \<and>
      createDefaultStyle ?st' (Ref 7) (Num (Fin 2)) = (?st', Ref 9)"
    using createDefaultStyle_memoized [of ?st' "Ref 7" "Num (Fin 2)"] by simp
  ultimately show ?thesis using first by blast
qed

section \<open>Properties of the editing styles\<close>

lemma lookup_Cons_0: "lookup (x # xs) 0 = Some x"
  by (simp add: lookup_def)

lemma lookup_Cons_Suc: "lookup (x # xs) (Suc k) = lookup xs k"
  by (simp add: lookup_def)

lemma lookup_Cons_numeral: "lookup (x # xs) (numeral k) = lookup xs (pred_numeral k)"
  by (simp add: lookup_def numeral_eq_Suc)

lemma lookup_Nil: "lookup [] k = None"
  by (simp add: lookup_def)

lemma lookup_off: "lookup (h @ xs) (off (length h) k) = lookup xs k"
  by (simp add: lookup_def nth_append off_def)

lemma update_off: "(h @ xs)[off (length h) k := ob] = h @ xs[k := ob]"
  by (simp add: list_update_append off_def)

lemma alloc_off: "alloc (h @ xs) ob = (h @ (xs @ [ob]), Ref (off (length h) (length xs)))"
  by (simp add: alloc_def off_def)

lemmas heap_eval =
  lookup_Cons_0 lookup_Cons_Suc lookup_Cons_numeral lookup_Nil lookup_off update_off alloc_off

lemma createEditingStyle_off:
  "createEditingStyle (h0 @ []) = Inr (h0 @ editing_objects (length h0), Ref (off (length h0) 0))"
  unfolding createEditingStyle_def
  apply (simp add: heap_eval new_Fill_def new_Stroke_def new_CircleStyle_def new_Style_def
      set_prop_def get_prop_def array_concat_def isArray_def spread_def Let_def
      del: append_Nil2 One_nat_def)
  apply (simp add: editing_objects_def eval_nat_numeral)
  done

lemma createEditingStyle_eq:
  "createEditingStyle h0 = Inr (h0 @ editing_objects (length h0), Ref (length h0))"
  using createEditingStyle_off [of h0] by (simp add: off_def)

lemma editing_lookup:
  "lookup (h @ editing_objects (length h) @ ys) (off (length h) 0)
     = Some (Dict [(POLYGON, Ref (off (length h) 6)), (MULTI_POLYGON, Ref (off (length h) 6)),
           (LINE_STRING, Ref (off (length h) 11)), (MULTI_LINE_STRING, Ref (off (length h) 11)),
           (CIRCLE, Ref (off (length h) 12)), (POINT, Ref (off (length h) 17)),
           (MULTI_POINT, Ref (off (length h) 17)),
           (GEOMETRY_COLLECTION, Ref (off (length h) 18))])"
  "lookup (h @ editing_objects (length h) @ ys) (off (length h) 1)
     = Some (Array [Num (Fin 255), Num (Fin 255), Num (Fin 255), Num (Fin 1)])"
  "lookup (h @ editing_objects (length h) @ ys) (off (length h) 2)
     = Some (Array [Num (Fin 0), Num (Fin 153), Num (Fin 255), Num (Fin 1)])"
  "lookup (h @ editing_objects (length h) @ ys) (off (length h) 3)
     = Some (Array [Num (Fin 255), Num (Fin 255), Num (Fin 255), Num (Fin 0.5)])"
  "lookup (h @ editing_objects (length h) @ ys) (off (length h) 4)
     = Some (FillObj (Ref (off (length h) 3)))"
  "lookup (h @ editing_objects (length h) @ ys) (off (length h) 5)
     = Some (StyleObj (Style (no_options\<lparr>opt_fill := Ref (off (length h) 4)\<rparr>)))"
  "lookup (h @ editing_objects (length h) @ ys) (off (length h) 6)
     = Some (Array [Ref (off (length h) 5)])"
  "lookup (h @ editing_objects (length h) @ ys) (off (length h) 7)
     = Some (StrokeObj (Ref (off (length h) 1)) (Num (Fin 5)))"
  "lookup (h @ editing_objects (length h) @ ys) (off (length h) 8)
     = Some (StyleObj (Style (no_options\<lparr>opt_stroke := Ref (off (length h) 7)\<rparr>)))"
  "lookup (h @ editing_objects (length h) @ ys) (off (length h) 9)
     = Some (StrokeObj (Ref (off (length h) 2)) (Num (Fin 3)))"
  "lookup (h @ editing_objects (length h) @ ys) (off (length h) 10)
     = Some (StyleObj (Style (no_options\<lparr>opt_stroke := Ref (off (length h) 9)\<rparr>)))"
  "lookup (h @ editing_objects (length h) @ ys) (off (length h) 11)
     = Some (Array [Ref (off (length h) 8), Ref (off (length h) 10)])"
  "lookup (h @ editing_objects (length h) @ ys) (off (length h) 12)
     = Some (Array [Ref (off (length h) 5), Ref (off (length h) 8), Ref (off (length h) 10)])"
  "lookup (h @ editing_objects (length h) @ ys) (off (length h) 13)
     = Some (FillObj (Ref (off (length h) 2)))"
  "lookup (h @ editing_objects (length h) @ ys) (off (length h) 14)
     = Some (StrokeObj (Ref (off (length h) 1)) (Num (Fin 1.5)))"
  "lookup (h @ editing_objects (length h) @ ys) (off (length h) 15)
     = Some (CircleObj (Ref (off (length h) 13)) (Ref (off (length h) 14)) (Num (Fin 6)))"
  "lookup (h @ editing_objects (length h) @ ys) (off (length h) 16)
     = Some (StyleObj (Style (no_options\<lparr>opt_image := Ref (off (length h) 15),
          opt_zIndex := Num Infinity\<rparr>)))"
  "lookup (h @ editing_objects (length h) @ ys) (off (length h) 17)
     = Some (Array [Ref (off (length h) 16)])"
  "lookup (h @ editing_objects (length h) @ ys) (off (length h) 18)
     = Some (Array [Ref (off (length h) 5), Ref (off (length h) 8), Ref (off (length h) 10),
                    Ref (off (length h) 16)])"
  unfolding lookup_off editing_objects_def append_Cons
  by (simp_all only: lookup_Cons_0 lookup_Cons_Suc lookup_Cons_numeral pred_numeral_simps
      BitM.simps One_nat_def numeral_eq_Suc)

lemma editing_get_prop:
  "get_prop (h @ editing_objects (length h) @ ys) (Ref (off (length h) 0)) POLYGON
     = Ref (off (length h) 6)"
  "get_prop (h @ editing_objects (length h) @ ys) (Ref (off (length h) 0)) MULTI_POLYGON
     = Ref (off (length h) 6)"
  "get_prop (h @ editing_objects (length h) @ ys) (Ref (off (length h) 0)) LINE_STRING
     = Ref (off (length h) 11)"
  "get_prop (h @ editing_objects (length h) @ ys) (Ref (off (length h) 0)) MULTI_LINE_STRING
     = Ref (off (length h) 11)"
  "get_prop (h @ editing_objects (length h) @ ys) (Ref (off (length h) 0)) CIRCLE
     = Ref (off (length h) 12)"
  "get_prop (h @ editing_objects (length h) @ ys) (Ref (off (length h) 0)) POINT
     = Ref (off (length h) 17)"
  "get_prop (h @ editing_objects (length h) @ ys) (Ref (off (length h) 0)) MULTI_POINT
     = Ref (off (length h) 17)"
  "get_prop (h @ editing_objects (length h) @ ys) (Ref (off (length h) 0)) GEOMETRY_COLLECTION
     = Ref (off (length h) 18)"
  by (simp_all add: get_prop_def editing_lookup)

lemma editing_dict_values:
  "dict_values (h @ editing_objects (length h) @ ys) (Ref (off (length h) 0))
     = [Ref (off (length h) 6), Ref (off (length h) 6), Ref (off (length h) 11),
        Ref (off (length h) 11), Ref (off (length h) 12), Ref (off (length h) 17),
        Ref (off (length h) 17), Ref (off (length h) 18)]"
  by (simp add: dict_values_def editing_lookup)

lemma editing_snapshot_line_string:
  "snapshot 5 (h @ editing_objects (length h) @ ys) (Ref (off (length h) 11))
     = Node ''Array''
         [style_content (Atom Null) (Atom Null)
            (Node ''Stroke'' [rgba 255 255 255 1, Atom (Num (Fin 5))]) (Atom Undefined),
          style_content (Atom Null) (Atom Null)
            (Node ''Stroke'' [rgba 0 153 255 1, Atom (Num (Fin 3))]) (Atom Undefined)]"
  by (simp add: snapshot_numeral editing_lookup Style_def no_options_def
      rgba_def style_content_def del: One_nat_def)

lemma editing_snapshot_point:
  "snapshot 6 (h @ editing_objects (length h) @ ys) (Ref (off (length h) 17))
     = Node ''Array''
         [style_content (Atom Null)
            (Node ''CircleStyle''
               [Node ''Fill'' [rgba 0 153 255 1],
                Node ''Stroke'' [rgba 255 255 255 1, Atom (Num (Fin 1.5))],
                Atom (Num (Fin 6))])
            (Atom Null) (Atom (Num Infinity))]"
  by (simp add: snapshot_numeral editing_lookup Style_def no_options_def
      rgba_def style_content_def del: One_nat_def)
lemma editing_snapshot:
  "snapshot 7 (h @ editing_objects (length h) @ ys) (Ref (off (length h) 0))
     = snapshot 7 ([] @ editing_objects (length ([] :: heap)) @ [])
         (Ref (off (length ([] :: heap)) 0))"
  by (simp add: snapshot_numeral editing_lookup Style_def no_options_def
      del: append_Nil append_Nil2 list.size One_nat_def)

lemma editing_complete:
  "complete (snapshot 7 (h @ editing_objects (length h) @ ys) (Ref (off (length h) 0)))"
  by (simp add: snapshot_numeral editing_lookup Style_def no_options_def del: One_nat_def)

lemma createEditingStyle_result:
  "createEditingStyle h = Inr (h @ editing_objects (length h) @ [], Ref (off (length h) 0))"
  using createEditingStyle_off [of h] by simp

lemma length_editing_objects: "length (editing_objects b) = 19"
  by (simp add: editing_objects_def)

lemma off_inject: "off b k = off b k' \<longleftrightarrow> k = k'"
  by (simp add: off_def)

lemma off_later: "k < 19 \<Longrightarrow> off b k \<noteq> off (b + 19 + n) k'"
  by (simp add: off_def)

lemma editing_spread:
  "spread (h @ editing_objects (length h) @ ys) (Ref (off (length h) 6))
     = [Ref (off (length h) 5)]"
  "spread (h @ editing_objects (length h) @ ys) (Ref (off (length h) 11))
     = [Ref (off (length h) 8), Ref (off (length h) 10)]"
  "spread (h @ editing_objects (length h) @ ys) (Ref (off (length h) 12))
     = [Ref (off (length h) 5), Ref (off (length h) 8), Ref (off (length h) 10)]"
  "spread (h @ editing_objects (length h) @ ys) (Ref (off (length h) 17))
     = [Ref (off (length h) 16)]"
  "spread (h @ editing_objects (length h) @ ys) (Ref (off (length h) 18))
     = [Ref (off (length h) 5), Ref (off (length h) 8), Ref (off (length h) 10),
        Ref (off (length h) 16)]"
  by (simp_all add: spread_def editing_lookup)

text \<open>
  C7. In the mapping that \<^verbatim>\<open>createEditingStyle\<close> returns, whatever the heap it is called
  in, the line-string entry is an array of exactly two descriptors, the first with
  nothing but a stroke of colour \<^verbatim>\<open>[255, 255, 255, 1]\<close> and width 5, the second with
  nothing but a stroke of colour \<^verbatim>\<open>[0, 153, 255, 1]\<close> and width 3; and the point entry is
  an array of one descriptor whose image is a circle of radius 6 with a fill of the blue
  colour and a stroke of the white colour and width 1.5, and whose zIndex is
  \<^verbatim>\<open>Infinity\<close>.
\<close>

theorem createEditingStyle_values:
  "\<exists>h1 styles. createEditingStyle h = Inr (h1, styles) \<and>
     snapshot 5 h1 (get_prop h1 styles LINE_STRING)
       = Node ''Array''
           [style_content (Atom Null) (Atom Null)
              (Node ''Stroke'' [rgba 255 255 255 1, Atom (Num (Fin 5))]) (Atom Undefined),
            style_content (Atom Null) (Atom Null)
              (Node ''Stroke'' [rgba 0 153 255 1, Atom (Num (Fin 3))]) (Atom Undefined)] \<and>
     snapshot 6 h1 (get_prop h1 styles POINT)
       = Node ''Array''
           [style_content (Atom Null)
              (Node ''CircleStyle''
                 [Node ''Fill'' [rgba 0 153 255 1],
                  Node ''Stroke'' [rgba 255 255 255 1, Atom (Num (Fin 1.5))],
                  Atom (Num (Fin 6))])
              (Atom Null) (Atom (Num Infinity))]"
  apply (rule exI [of _ "h @ editing_objects (length h) @ []"])
  apply (rule exI [of _ "Ref (off (length h) 0)"])
  apply (intro conjI)
    apply (rule createEditingStyle_result)
   apply (simp only: editing_get_prop editing_snapshot_line_string)
  apply (simp only: editing_get_prop editing_snapshot_point)
  done

text \<open>
  C6. Two calls of \<^verbatim>\<open>createEditingStyle\<close>, with any allocations in between, return
  mappings that are different objects, share no array and no descriptor, and have the
  same content, followed through every reference. Within the mapping of one call the
  multi-polygon entry is the very array of the polygon entry, the multi-line-string
  entry that of the line-string entry and the multi-point entry that of the point entry;
  the circle entry is another array, holding the descriptors of the polygon array
  followed by those of the line-string array, three in all; and the geometry-collection
  entry is another array again, holding those of the polygon, line-string and point
  arrays, four in all.
\<close>

theorem createEditingStyle_fresh_and_shared:
  "\<exists>h1 styles1 h2 styles2.
     createEditingStyle h0 = Inr (h1, styles1) \<and>
     createEditingStyle (h1 @ later) = Inr (h2, styles2) \<and>
     styles1 \<noteq> styles2 \<and>
     set (dict_values h2 styles1) \<inter> set (dict_values h2 styles2) = {} \<and>
     set (concat (map (spread h2) (dict_values h2 styles1)))
       \<inter> set (concat (map (spread h2) (dict_values h2 styles2))) = {} \<and>
     snapshot 7 h2 styles1 = snapshot 7 h2 styles2 \<and>
     complete (snapshot 7 h2 styles1) \<and>
     get_prop h1 styles1 MULTI_POLYGON = get_prop h1 styles1 POLYGON \<and>
     get_prop h1 styles1 MULTI_LINE_STRING = get_prop h1 styles1 LINE_STRING \<and>
     get_prop h1 styles1 MULTI_POINT = get_prop h1 styles1 POINT \<and>
     (\<exists>p l q c g polygon line point.
        get_prop h1 styles1 POLYGON = Ref p \<and> get_prop h1 styles1 LINE_STRING = Ref l \<and>
        get_prop h1 styles1 POINT = Ref q \<and> get_prop h1 styles1 CIRCLE = Ref c \<and>
        get_prop h1 styles1 GEOMETRY_COLLECTION = Ref g \<and> distinct [p, l, q, c, g] \<and>
        lookup h1 p = Some (Array polygon) \<and> lookup h1 l = Some (Array line) \<and>
        lookup h1 q = Some (Array point) \<and>
        lookup h1 c = Some (Array (polygon @ line)) \<and> length (polygon @ line) = 3 \<and>
        lookup h1 g = Some (Array (polygon @ line @ point)) \<and>
        length (polygon @ line @ point) = 4)"
proof -
  define b where "b = length h0"
  define h1 where "h1 = h0 @ editing_objects b @ []"
  define b' where "b' = length (h1 @ later)"
  define h2 where "h2 = (h1 @ later) @ editing_objects b' @ []"
  have first: "createEditingStyle h0 = Inr (h1, Ref (off b 0))"
    unfolding h1_def b_def by (rule createEditingStyle_result)
  have second: "createEditingStyle (h1 @ later) = Inr (h2, Ref (off b' 0))"
    unfolding h2_def b'_def by (rule createEditingStyle_result)
  have b': "b' = b + 19 + length later"
    unfolding b'_def h1_def b_def by (simp add: length_editing_objects)
  have h2: "h2 = h0 @ editing_objects b @ (later @ editing_objects b' @ [])"
    unfolding h2_def h1_def by simp
  have ne: "\<And>k k'. k < 19 \<Longrightarrow> off b k \<noteq> off b' k'"
    unfolding b' by (rule off_later)
  have v1: "dict_values h2 (Ref (off b 0))
      = [Ref (off b 6), Ref (off b 6), Ref (off b 11), Ref (off b 11), Ref (off b 12),
         Ref (off b 17), Ref (off b 17), Ref (off b 18)]"
    unfolding h2 b_def by (rule editing_dict_values)
  have v2: "dict_values h2 (Ref (off b' 0))
      = [Ref (off b' 6), Ref (off b' 6), Ref (off b' 11), Ref (off b' 11), Ref (off b' 12),
         Ref (off b' 17), Ref (off b' 17), Ref (off b' 18)]"
    unfolding h2_def b'_def by (rule editing_dict_values)
  have d1: "concat (map (spread h2) (dict_values h2 (Ref (off b 0))))
      = [Ref (off b 5), Ref (off b 5), Ref (off b 8), Ref (off b 10), Ref (off b 8),
         Ref (off b 10), Ref (off b 5), Ref (off b 8), Ref (off b 10), Ref (off b 16),
         Ref (off b 16), Ref (off b 5), Ref (off b 8), Ref (off b 10), Ref (off b 16)]"
    unfolding v1 unfolding h2 b_def
    by (simp only: list.map concat.simps editing_spread append_Cons append_Nil)
  have d2: "concat (map (spread h2) (dict_values h2 (Ref (off b' 0))))
      = [Ref (off b' 5), Ref (off b' 5), Ref (off b' 8), Ref (off b' 10), Ref (off b' 8),
         Ref (off b' 10), Ref (off b' 5), Ref (off b' 8), Ref (off b' 10), Ref (off b' 16),
         Ref (off b' 16), Ref (off b' 5), Ref (off b' 8), Ref (off b' 10), Ref (off b' 16)]"
    unfolding v2 unfolding h2_def b'_def
    by (simp only: list.map concat.simps editing_spread append_Cons append_Nil)
  have c1: "Ref (off b 0) \<noteq> Ref (off b' 0)"
    by (simp add: ne)
  have c2: "set (dict_values h2 (Ref (off b 0))) \<inter> set (dict_values h2 (Ref (off b' 0))) = {}"
    unfolding v1 v2 by (simp add: ne)
  have c3: "set (concat (map (spread h2) (dict_values h2 (Ref (off b 0)))))
       \<inter> set (concat (map (spread h2) (dict_values h2 (Ref (off b' 0))))) = {}"
    unfolding d1 d2 by (simp add: ne)
  have s1: "snapshot 7 h2 (Ref (off b 0))
      = snapshot 7 ([] @ editing_objects (length ([] :: heap)) @ [])
          (Ref (off (length ([] :: heap)) 0))"
    unfolding h2 b_def by (rule editing_snapshot)
  have s2: "snapshot 7 h2 (Ref (off b' 0))
      = snapshot 7 ([] @ editing_objects (length ([] :: heap)) @ [])
          (Ref (off (length ([] :: heap)) 0))"
    unfolding h2_def b'_def by (rule editing_snapshot)
  have c4: "snapshot 7 h2 (Ref (off b 0)) = snapshot 7 h2 (Ref (off b' 0))"
    unfolding s1 s2 by (rule refl)
  have c5: "complete (snapshot 7 h2 (Ref (off b 0)))"
    unfolding h2 b_def by (rule editing_complete)
  have c6: "get_prop h1 (Ref (off b 0)) MULTI_POLYGON = get_prop h1 (Ref (off b 0)) POLYGON"
    "get_prop h1 (Ref (off b 0)) MULTI_LINE_STRING = get_prop h1 (Ref (off b 0)) LINE_STRING"
    "get_prop h1 (Ref (off b 0)) MULTI_POINT = get_prop h1 (Ref (off b 0)) POINT"
    unfolding h1_def b_def by (simp_all only: editing_get_prop)
  have c7: "\<exists>p l q c g polygon line point.
        get_prop h1 (Ref (off b 0)) POLYGON = Ref p \<and>
        get_prop h1 (Ref (off b 0)) LINE_STRING = Ref l \<and>
        get_prop h1 (Ref (off b 0)) POINT = Ref q \<and>
        get_prop h1 (Ref (off b 0)) CIRCLE = Ref c \<and>
        get_prop h1 (Ref (off b 0)) GEOMETRY_COLLECTION = Ref g \<and> distinct [p, l, q, c, g] \<and>
        lookup h1 p = Some (Array polygon) \<and> lookup h1 l = Some (Array line) \<and>
        lookup h1 q = Some (Array point) \<and>
        lookup h1 c = Some (Array (polygon @ line)) \<and> length (polygon @ line) = 3 \<and>
        lookup h1 g = Some (Array (polygon @ line @ point)) \<and>
        length (polygon @ line @ point) = 4"
    apply (rule exI [of _ "off b 6"], rule exI [of _ "off b 11"], rule exI [of _ "off b 17"],
        rule exI [of _ "off b 12"], rule exI [of _ "off b 18"],
        rule exI [of _ "[Ref (off b 5)]"], rule exI [of _ "[Ref (off b 8), Ref (off b 10)]"],
        rule exI [of _ "[Ref (off b 16)]"])
    unfolding h1_def b_def
    apply (simp add: editing_get_prop editing_lookup off_inject del: append_Nil2)
    done
  show ?thesis
    apply (rule exI [of _ h1], rule exI [of _ "Ref (off b 0)"],
        rule exI [of _ h2], rule exI [of _ "Ref (off b' 0)"])
    apply (intro conjI)
              apply (rule first)
             apply (rule second)
            apply (rule c1)
           apply (rule c2)
          apply (rule c3)
         apply (rule c4)
        apply (rule c5)
       apply (rule c6(1))
      apply (rule c6(2))
     apply (rule c6(3))
    apply (rule c7)
    done
qed

end
